theory Spec2Isabelle
  imports Main
begin

section \<open>Python values and strings\<close>

text \<open>
  A property value read from the model is absent (\<open>None\<close>), a string, an integer, a
  boolean or a float. A float is carried by its \<open>repr\<close> text, which is what \<open>str\<close>
  returns for it. A Python \<open>str\<close> is modelled as a \<open>string\<close> whose characters are the
  code points below 256 (Latin-1), which covers every literal of the source.
\<close>

datatype pyval = PNone | PStr string | PInt int | PBool bool | PFloat string

text \<open>The exceptions that can leave a function of the program. \<open>LibraryError\<close> stands
  for whatever the model-loading library raises.\<close>

datatype pyexn =
  ValueError | TypeError | OverflowError | AttributeError | FileNotFoundError | LibraryError

definition digit_char :: "nat \<Rightarrow> char" where
  "digit_char d =
     (if d = 0 then CHR ''0'' else if d = 1 then CHR ''1'' else if d = 2 then CHR ''2''
      else if d = 3 then CHR ''3'' else if d = 4 then CHR ''4'' else if d = 5 then CHR ''5''
      else if d = 6 then CHR ''6'' else if d = 7 then CHR ''7'' else if d = 8 then CHR ''8''
      else CHR ''9'')"

fun str_nat :: "nat \<Rightarrow> string" where
  "str_nat n =
     (if n < 10 then [digit_char n]
      else str_nat (n div 10) @ [digit_char (n mod 10)])"

declare str_nat.simps [simp del]

fun py_str :: "pyval \<Rightarrow> string" where
  "py_str PNone = ''None''"
| "py_str (PStr s) = s"
| "py_str (PInt i) = (if i < 0 then ''-'' @ str_nat (nat (- i)) else str_nat (nat i))"
| "py_str (PBool b) = (if b then ''True'' else ''False'')"
| "py_str (PFloat r) = r"

text \<open>The characters \<open>str.strip()\<close> removes: Python's whitespace below code point 256.\<close>

definition is_space :: "char \<Rightarrow> bool" where
  "is_space c =
     (c \<in> set [CHR 0x09, CHR 0x0A, CHR 0x0B, CHR 0x0C, CHR 0x0D, CHR 0x1C, CHR 0x1D,
                CHR 0x1E, CHR 0x1F, CHR 0x20, CHR 0x85, CHR 0xA0])"

definition strip :: "string \<Rightarrow> string" where
  "strip s = rev (dropWhile is_space (rev (dropWhile is_space s)))"

definition is_digit :: "char \<Rightarrow> bool" where
  "is_digit c = (c \<in> set ''0123456789'')"

definition is_upper :: "char \<Rightarrow> bool" where
  "is_upper c = (c \<in> set ''ABCDEFGHIJKLMNOPQRSTUVWXYZ'')"

definition startswith :: "string \<Rightarrow> string \<Rightarrow> bool" where
  "startswith s p = (take (length p) s = p)"

fun split_on :: "char \<Rightarrow> string \<Rightarrow> string list" where
  "split_on c [] = [[]]"
| "split_on c (x # xs) =
     (if x = c then [] # split_on c xs
      else (case split_on c xs of w # ws \<Rightarrow> (x # w) # ws | [] \<Rightarrow> [[x]]))"

fun join :: "string \<Rightarrow> string list \<Rightarrow> string" where
  "join sep [] = []"
| "join sep [x] = x"
| "join sep (x # y # ys) = x @ sep @ join sep (y # ys)"

text \<open>A dict lookup \<open>d.get(k)\<close>: \<open>None\<close> when the key is missing.\<close>

definition dict_get :: "(string \<rightharpoonup> pyval) \<Rightarrow> string \<Rightarrow> pyval" where
  "dict_get d k = (case d k of None \<Rightarrow> PNone | Some v \<Rightarrow> v)"


text \<open>
  Builtins of the Python library are parameters of the model:
  \<open>py_int_float L v\<close> is the outcome of \<open>int(float(v))\<close> (an integer, or the exception
  raised), and \<open>py_path_stem L f\<close>, \<open>py_path_name L f\<close> and \<open>py_path_str L f\<close> are
  \<open>Path(f).stem\<close>, \<open>Path(f).name\<close> and \<open>str(Path(f))\<close>.
\<close>

record pylib =
  py_int_float :: "pyval \<Rightarrow> pyexn + int"
  py_path_stem :: "string \<Rightarrow> string"
  py_path_name :: "string \<Rightarrow> string"
  py_path_str :: "string \<Rightarrow> string"

abbreviation apos :: string where "apos \<equiv> [CHR 0x27]"
abbreviation oslash :: string where "oslash \<equiv> [CHR 0xF8]"
abbreviation aelig :: string where "aelig \<equiv> [CHR 0xE6]"

section \<open>validation\_rules.py\<close>

definition REQUIRED_PSET :: string where
  "REQUIRED_PSET = ''A4_Utsp''"

definition REQUIRED_PROPERTIES :: "string list" where
  "REQUIRED_PROPERTIES =
     [''A4_Utsp_Kategori'', ''A4_Utsp_ID'', ''A4_Utsp_Utsparingstype'', ''A4_Utsp_Tetting'',
      ''A4_Utsp_Fase'', ''A4_Utsp_Status'', ''A4_Utsp_Rev'', ''A4_Utsp_RevDato'',
      ''A4_Utsp_RevBeskrivelse'']"

definition DIMENSION_PROPERTIES :: "string list" where
  "DIMENSION_PROPERTIES =
     [''A4_Utsp_DimBredde'', ''A4_Utsp_DimH'' @ oslash @ ''yde'', ''A4_Utsp_DimDybde'',
      ''A4_Utsp_DimDiameter'']"

definition OPTIONAL_PROPERTIES :: "string list" where
  "OPTIONAL_PROPERTIES = [''A4_Utsp_Funksjon'']"

definition ALL_PROPERTIES :: "string list" where
  "ALL_PROPERTIES = REQUIRED_PROPERTIES @ DIMENSION_PROPERTIES @ OPTIONAL_PROPERTIES"

definition VALID_KATEGORI :: "string list" where
  "VALID_KATEGORI = [''ProvisionForVoid'']"

definition VALID_UTSPARINGSTYPE_PREFERRED :: "string list" where
  "VALID_UTSPARINGSTYPE_PREFERRED = [''Utsparing'', ''Hulltaking'']"

definition VALID_TETTING_STR :: "string list" where
  "VALID_TETTING_STR = [''Ja'', ''Nei'']"

definition VALID_FASE :: "string list" where
  "VALID_FASE = [''Fase 1'', ''Fase 2'']"

definition VALID_STATUS :: "string list" where
  "VALID_STATUS = [''Godkjent'', ''Ikke godkjent'', ''Behandles av RIB'']"

definition VALID_FUNKSJON :: "string list" where
  "VALID_FUNKSJON = [''B'' @ aelig @ ''ring'', ''Vanntetting'', ''Brann'', ''Lyd'']"

text \<open>
  The three compiled patterns, each used with \<open>match\<close> on the whole string. \<open>$\<close> matches at
  the end of the string and also just before a final newline.
\<close>

definition at_end :: "string \<Rightarrow> bool" where
  "at_end t = (t = [] \<or> t = [CHR 0x0A])"

text \<open>\<open>^[A-Z]{2,4}_Hull-\d+$\<close>\<close>

definition ID_PATTERN_match :: "string \<Rightarrow> bool" where
  "ID_PATTERN_match s =
     (let letters = takeWhile is_upper s; r = dropWhile is_upper s;
          d = drop 6 r
      in 2 \<le> length letters \<and> length letters \<le> 4 \<and> take 6 r = ''_Hull-'' \<and>
         takeWhile is_digit d \<noteq> [] \<and> at_end (dropWhile is_digit d))"

text \<open>\<open>^\d{2}\.\d{2}\.\d{4}$\<close>\<close>

fun DATE_PATTERN_match :: "string \<Rightarrow> bool" where
  "DATE_PATTERN_match (d1 # d2 # p1 # m1 # m2 # p2 # y1 # y2 # y3 # y4 # t) =
     (is_digit d1 \<and> is_digit d2 \<and> p1 = CHR ''.'' \<and> is_digit m1 \<and> is_digit m2 \<and>
      p2 = CHR ''.'' \<and> is_digit y1 \<and> is_digit y2 \<and> is_digit y3 \<and> is_digit y4 \<and> at_end t)"
| "DATE_PATTERN_match _ = False"

text \<open>\<open>^\d+$\<close>\<close>

definition REV_PATTERN_match :: "string \<Rightarrow> bool" where
  "REV_PATTERN_match s = (takeWhile is_digit s \<noteq> [] \<and> at_end (dropWhile is_digit s))"

text \<open>\<open>ValidationResult(is_valid, message, severity="error")\<close>: where the source leaves the
  severity out, the default \<open>error\<close> is written out.\<close>

record validation_result =
  is_valid :: bool
  message :: string
  severity :: string

definition validate_kategori :: "pyval \<Rightarrow> validation_result" where
  "validate_kategori value =
     (if value = PNone \<or> strip (py_str value) = []
      then \<lparr>is_valid = False, message = ''Kategori mangler'', severity = ''error''\<rparr>
      else if py_str value \<in> set VALID_KATEGORI
      then \<lparr>is_valid = True, message = ''OK'', severity = ''error''\<rparr>
      else \<lparr>is_valid = False,
             message = ''Ugyldig kategori: '' @ apos @ py_str value @ apos @
                       '' (forventet: ProvisionForVoid)'',
             severity = ''error''\<rparr>)"

definition validate_id :: "pyval \<Rightarrow> string option \<Rightarrow> validation_result" where
  "validate_id value expected_prefix =
     (if value = PNone \<or> strip (py_str value) = []
      then \<lparr>is_valid = False, message = ''ID mangler'', severity = ''error''\<rparr>
      else
        let val_str = strip (py_str value) in
        if \<not> ID_PATTERN_match val_str
        then \<lparr>is_valid = False,
               message = ''Ugyldig ID-format: '' @ apos @ val_str @ apos @
                         '' (forventet: XXX_Hull-nn)'',
               severity = ''error''\<rparr>
        else
          let prefix = (case split_on CHR ''_'' val_str of p # _ \<Rightarrow> p | [] \<Rightarrow> []) in
          (case expected_prefix of
             Some ep \<Rightarrow>
               if ep \<noteq> [] \<and> prefix \<noteq> ep
               then \<lparr>is_valid = False,
                      message = ''ID-prefiks '' @ apos @ prefix @ apos @
                                '' matcher ikke forventet '' @ apos @ ep @ apos,
                      severity = ''warning''\<rparr>
               else \<lparr>is_valid = True, message = ''OK'', severity = ''error''\<rparr>
           | None \<Rightarrow> \<lparr>is_valid = True, message = ''OK'', severity = ''error''\<rparr>))"

definition validate_utsparingstype :: "pyval \<Rightarrow> validation_result" where
  "validate_utsparingstype value =
     (if value = PNone \<or> strip (py_str value) = []
      then \<lparr>is_valid = False, message = ''Utsparingstype mangler'', severity = ''error''\<rparr>
      else
        let val_str = strip (py_str value) in
        if val_str \<in> set VALID_UTSPARINGSTYPE_PREFERRED
        then \<lparr>is_valid = True, message = ''OK'', severity = ''error''\<rparr>
        else if val_str = ''Innst'' @ oslash @ ''pningsgods''
        then \<lparr>is_valid = True,
               message = ''Innst'' @ oslash @ ''pningsgods skal normalt ikke v'' @ aelig @
                         ''re i utsparings-IFC'',
               severity = ''warning''\<rparr>
        else \<lparr>is_valid = False,
               message = ''Ugyldig utsparingstype: '' @ apos @ val_str @ apos,
               severity = ''error''\<rparr>)"

definition validate_tetting :: "pyval \<Rightarrow> validation_result" where
  "validate_tetting value =
     (if value = PNone
      then \<lparr>is_valid = False, message = ''Tetting mangler'', severity = ''error''\<rparr>
      else if (case value of PBool _ \<Rightarrow> True | _ \<Rightarrow> False)
      then \<lparr>is_valid = True, message = ''OK'', severity = ''error''\<rparr>
      else
        let val_str = strip (py_str value) in
        if val_str = []
        then \<lparr>is_valid = False, message = ''Tetting mangler'', severity = ''error''\<rparr>
        else if val_str \<in> set VALID_TETTING_STR
        then \<lparr>is_valid = True, message = ''OK'', severity = ''error''\<rparr>
        else \<lparr>is_valid = False,
               message = ''Ugyldig tetting-verdi: '' @ apos @ py_str value @ apos @
                         '' (forventet: Ja/Nei eller True/False)'',
               severity = ''error''\<rparr>)"

definition validate_funksjon :: "pyval \<Rightarrow> validation_result" where
  "validate_funksjon value =
     (if value = PNone \<or> strip (py_str value) = []
      then \<lparr>is_valid = True, message = ''Funksjon ikke angitt (valgfritt)'',
             severity = ''info''\<rparr>
      else
        let val_str = strip (py_str value);
            values = map strip (split_on CHR '','' val_str);
            invalid_values = filter (\<lambda>v. v \<noteq> [] \<and> v \<notin> set VALID_FUNKSJON) values
        in if invalid_values \<noteq> []
           then \<lparr>is_valid = True,
                  message = ''Ukjent funksjon: '' @ join '', '' invalid_values,
                  severity = ''warning''\<rparr>
           else \<lparr>is_valid = True, message = ''OK'', severity = ''error''\<rparr>)"

definition validate_fase :: "pyval \<Rightarrow> validation_result" where
  "validate_fase value =
     (if value = PNone \<or> strip (py_str value) = []
      then \<lparr>is_valid = False, message = ''Fase mangler'', severity = ''error''\<rparr>
      else
        let val_str = strip (py_str value) in
        if val_str \<in> set VALID_FASE
        then \<lparr>is_valid = True, message = ''OK'', severity = ''error''\<rparr>
        else \<lparr>is_valid = False,
               message = ''Ugyldig fase: '' @ apos @ val_str @ apos @
                         '' (forventet: Fase 1 eller Fase 2)'',
               severity = ''error''\<rparr>)"

definition validate_status :: "pyval \<Rightarrow> validation_result" where
  "validate_status value =
     (if value = PNone \<or> strip (py_str value) = []
      then \<lparr>is_valid = False, message = ''Status mangler'', severity = ''error''\<rparr>
      else
        let val_str = strip (py_str value) in
        if val_str \<in> set VALID_STATUS
        then \<lparr>is_valid = True, message = ''OK'', severity = ''error''\<rparr>
        else \<lparr>is_valid = False,
               message = ''Ugyldig status: '' @ apos @ val_str @ apos,
               severity = ''error''\<rparr>)"

text \<open>
  \<open>validate_rev\<close> catches \<open>ValueError\<close> and \<open>TypeError\<close> around \<open>int(float(value))\<close>; any
  other exception (\<open>OverflowError\<close> for a float infinity, as for the text \<open>inf\<close>) is
  not caught and leaves the function.
\<close>

definition validate_rev :: "pylib \<Rightarrow> pyval \<Rightarrow> pyexn + validation_result" where
  "validate_rev L value =
     (if value = PNone
      then Inr \<lparr>is_valid = False, message = ''Revisjon mangler'', severity = ''error''\<rparr>
      else
        let val_str = strip (py_str value);
            invalid = \<lparr>is_valid = False,
                       message = ''Ugyldig revisjonsnummer: '' @ apos @ py_str value @ apos @
                                 '' (forventet: 0, 1, 2, ...)'',
                       severity = ''error''\<rparr>
        in
        if val_str = []
        then Inr \<lparr>is_valid = False, message = ''Revisjon mangler'', severity = ''error''\<rparr>
        else if REV_PATTERN_match val_str
        then Inr \<lparr>is_valid = True, message = ''OK'', severity = ''error''\<rparr>
        else (case py_int_float L value of
                Inr rev_num \<Rightarrow>
                  if rev_num \<ge> 0
                  then Inr \<lparr>is_valid = True, message = ''OK'', severity = ''error''\<rparr>
                  else Inr invalid
              | Inl e \<Rightarrow> if e = ValueError \<or> e = TypeError then Inr invalid else Inl e))"

definition validate_rev_dato :: "pyval \<Rightarrow> validation_result" where
  "validate_rev_dato value =
     (if value = PNone \<or> strip (py_str value) = []
      then \<lparr>is_valid = False, message = ''Revisjonsdato mangler'', severity = ''error''\<rparr>
      else
        let val_str = strip (py_str value) in
        if DATE_PATTERN_match val_str
        then \<lparr>is_valid = True, message = ''OK'', severity = ''error''\<rparr>
        else \<lparr>is_valid = False,
               message = ''Ugyldig datoformat: '' @ apos @ val_str @ apos @
                         '' (forventet: DD.MM.YYYY)'',
               severity = ''error''\<rparr>)"

definition validate_rev_beskrivelse :: "pyval \<Rightarrow> validation_result" where
  "validate_rev_beskrivelse value =
     (if value = PNone \<or> strip (py_str value) = []
      then \<lparr>is_valid = False, message = ''Revisjonsbeskrivelse mangler'',
             severity = ''error''\<rparr>
      else \<lparr>is_valid = True, message = ''OK'', severity = ''error''\<rparr>)"

definition has_value :: "pyval \<Rightarrow> bool" where
  "has_value val =
     (if val = PNone then False
      else
        let val_str = strip (py_str val) in
        val_str \<noteq> [] \<and> val_str \<noteq> ''0'' \<and> val_str \<noteq> ''0.0'')"

definition validate_dimensions :: "(string \<rightharpoonup> pyval) \<Rightarrow> validation_result" where
  "validate_dimensions properties =
     (let bredde = dict_get properties ''A4_Utsp_DimBredde'';
          hoyde = dict_get properties (''A4_Utsp_DimH'' @ oslash @ ''yde'');
          dybde = dict_get properties ''A4_Utsp_DimDybde'';
          diameter = dict_get properties ''A4_Utsp_DimDiameter'';
          has_bredde = has_value bredde;
          has_hoyde = has_value hoyde;
          has_diameter = has_value diameter
      in
      if has_bredde \<and> has_hoyde
      then \<lparr>is_valid = True,
             message = ''Rektangul'' @ aelig @ ''r: Bredde og H'' @ oslash @ ''yde angitt'',
             severity = ''error''\<rparr>
      else if has_diameter
      then \<lparr>is_valid = True, message = ''Rund: Diameter angitt'', severity = ''error''\<rparr>
      else if has_bredde \<and> \<not> has_hoyde
      then \<lparr>is_valid = False,
             message = ''Bredde angitt men H'' @ oslash @ ''yde mangler'',
             severity = ''error''\<rparr>
      else if has_hoyde \<and> \<not> has_bredde
      then \<lparr>is_valid = False,
             message = ''H'' @ oslash @ ''yde angitt men Bredde mangler'',
             severity = ''error''\<rparr>
      else \<lparr>is_valid = False,
             message = ''Dimensjoner mangler (enten Bredde+H'' @ oslash @
                       ''yde eller Diameter)'',
             severity = ''error''\<rparr>)"

definition PROPERTY_VALIDATORS ::
  "pylib \<Rightarrow> string \<rightharpoonup> (pyval \<Rightarrow> pyexn + validation_result)" where
  "PROPERTY_VALIDATORS L =
     [''A4_Utsp_Kategori'' \<mapsto> (\<lambda>v. Inr (validate_kategori v)),
      ''A4_Utsp_ID'' \<mapsto> (\<lambda>v. Inr (validate_id v None)),
      ''A4_Utsp_Utsparingstype'' \<mapsto> (\<lambda>v. Inr (validate_utsparingstype v)),
      ''A4_Utsp_Tetting'' \<mapsto> (\<lambda>v. Inr (validate_tetting v)),
      ''A4_Utsp_Funksjon'' \<mapsto> (\<lambda>v. Inr (validate_funksjon v)),
      ''A4_Utsp_Fase'' \<mapsto> (\<lambda>v. Inr (validate_fase v)),
      ''A4_Utsp_Status'' \<mapsto> (\<lambda>v. Inr (validate_status v)),
      ''A4_Utsp_Rev'' \<mapsto> validate_rev L,
      ''A4_Utsp_RevDato'' \<mapsto> (\<lambda>v. Inr (validate_rev_dato v)),
      ''A4_Utsp_RevBeskrivelse'' \<mapsto> (\<lambda>v. Inr (validate_rev_beskrivelse v))]"

section \<open>app.py: the inlined copy of the rules\<close>

text \<open>
  \<open>app.py\<close> carries its own copy of the constants, patterns and validators. The constants
  and patterns are the same; the validators differ in their messages, and \<open>validate_id\<close>
  differs in the outcome it gives for a prefix mismatch.
\<close>

definition app_validate_kategori :: "pyval \<Rightarrow> validation_result" where
  "app_validate_kategori value =
     (if value = PNone \<or> strip (py_str value) = []
      then \<lparr>is_valid = False, message = ''Kategori mangler'', severity = ''error''\<rparr>
      else if py_str value \<in> set VALID_KATEGORI
      then \<lparr>is_valid = True, message = ''OK'', severity = ''error''\<rparr>
      else \<lparr>is_valid = False,
             message = ''Ugyldig kategori: '' @ apos @ py_str value @ apos,
             severity = ''error''\<rparr>)"

definition app_validate_id :: "pyval \<Rightarrow> string option \<Rightarrow> validation_result" where
  "app_validate_id value expected_prefix =
     (if value = PNone \<or> strip (py_str value) = []
      then \<lparr>is_valid = False, message = ''ID mangler'', severity = ''error''\<rparr>
      else
        let val_str = strip (py_str value) in
        if \<not> ID_PATTERN_match val_str
        then \<lparr>is_valid = False,
               message = ''Ugyldig ID-format: '' @ apos @ val_str @ apos,
               severity = ''error''\<rparr>
        else
          let prefix = (case split_on CHR ''_'' val_str of p # _ \<Rightarrow> p | [] \<Rightarrow> []) in
          (case expected_prefix of
             Some ep \<Rightarrow>
               if ep \<noteq> [] \<and> prefix \<noteq> ep
               then \<lparr>is_valid = True,
                      message = ''ID-prefiks '' @ apos @ prefix @ apos @ '' != '' @
                                apos @ ep @ apos,
                      severity = ''warning''\<rparr>
               else \<lparr>is_valid = True, message = ''OK'', severity = ''error''\<rparr>
           | None \<Rightarrow> \<lparr>is_valid = True, message = ''OK'', severity = ''error''\<rparr>))"

definition app_validate_utsparingstype :: "pyval \<Rightarrow> validation_result" where
  "app_validate_utsparingstype value =
     (if value = PNone \<or> strip (py_str value) = []
      then \<lparr>is_valid = False, message = ''Utsparingstype mangler'', severity = ''error''\<rparr>
      else
        let val_str = strip (py_str value) in
        if val_str \<in> set [''Utsparing'', ''Hulltaking'']
        then \<lparr>is_valid = True, message = ''OK'', severity = ''error''\<rparr>
        else if val_str = ''Innst'' @ oslash @ ''pningsgods''
        then \<lparr>is_valid = True,
               message = ''Innst'' @ oslash @ ''pningsgods - skal normalt ikke v'' @ aelig @
                         ''re i utsparings-IFC'',
               severity = ''warning''\<rparr>
        else \<lparr>is_valid = False,
               message = ''Ugyldig utsparingstype: '' @ apos @ val_str @ apos,
               severity = ''error''\<rparr>)"

definition app_validate_tetting :: "pyval \<Rightarrow> validation_result" where
  "app_validate_tetting value =
     (if value = PNone
      then \<lparr>is_valid = False, message = ''Tetting mangler'', severity = ''error''\<rparr>
      else if (case value of PBool _ \<Rightarrow> True | _ \<Rightarrow> False)
      then \<lparr>is_valid = True, message = ''OK'', severity = ''error''\<rparr>
      else
        let val_str = strip (py_str value) in
        if val_str = []
        then \<lparr>is_valid = False, message = ''Tetting mangler'', severity = ''error''\<rparr>
        else if val_str \<in> set VALID_TETTING_STR
        then \<lparr>is_valid = True, message = ''OK'', severity = ''error''\<rparr>
        else \<lparr>is_valid = False,
               message = ''Ugyldig tetting-verdi: '' @ apos @ py_str value @ apos,
               severity = ''error''\<rparr>)"

definition app_validate_funksjon :: "pyval \<Rightarrow> validation_result" where
  "app_validate_funksjon value =
     (if value = PNone \<or> strip (py_str value) = []
      then \<lparr>is_valid = True, message = ''Funksjon ikke angitt (valgfritt)'',
             severity = ''info''\<rparr>
      else
        let val_str = strip (py_str value);
            values = map strip (split_on CHR '','' val_str);
            invalid = filter (\<lambda>v. v \<noteq> [] \<and> v \<notin> set VALID_FUNKSJON) values
        in if invalid \<noteq> []
           then \<lparr>is_valid = True,
                  message = ''Ukjent funksjon: '' @ join '', '' invalid,
                  severity = ''warning''\<rparr>
           else \<lparr>is_valid = True, message = ''OK'', severity = ''error''\<rparr>)"

definition app_validate_fase :: "pyval \<Rightarrow> validation_result" where
  "app_validate_fase value =
     (if value = PNone \<or> strip (py_str value) = []
      then \<lparr>is_valid = False, message = ''Fase mangler'', severity = ''error''\<rparr>
      else if strip (py_str value) \<in> set VALID_FASE
      then \<lparr>is_valid = True, message = ''OK'', severity = ''error''\<rparr>
      else \<lparr>is_valid = False,
             message = ''Ugyldig fase: '' @ apos @ py_str value @ apos,
             severity = ''error''\<rparr>)"

definition app_validate_status :: "pyval \<Rightarrow> validation_result" where
  "app_validate_status value =
     (if value = PNone \<or> strip (py_str value) = []
      then \<lparr>is_valid = False, message = ''Status mangler'', severity = ''error''\<rparr>
      else if strip (py_str value) \<in> set VALID_STATUS
      then \<lparr>is_valid = True, message = ''OK'', severity = ''error''\<rparr>
      else \<lparr>is_valid = False,
             message = ''Ugyldig status: '' @ apos @ py_str value @ apos,
             severity = ''error''\<rparr>)"

definition app_validate_rev :: "pylib \<Rightarrow> pyval \<Rightarrow> pyexn + validation_result" where
  "app_validate_rev L value =
     (if value = PNone
      then Inr \<lparr>is_valid = False, message = ''Revisjon mangler'', severity = ''error''\<rparr>
      else
        let val_str = strip (py_str value);
            invalid = \<lparr>is_valid = False,
                       message = ''Ugyldig revisjonsnummer: '' @ apos @ py_str value @ apos,
                       severity = ''error''\<rparr>
        in
        if val_str = []
        then Inr \<lparr>is_valid = False, message = ''Revisjon mangler'', severity = ''error''\<rparr>
        else if REV_PATTERN_match val_str
        then Inr \<lparr>is_valid = True, message = ''OK'', severity = ''error''\<rparr>
        else (case py_int_float L value of
                Inr n \<Rightarrow>
                  if n \<ge> 0
                  then Inr \<lparr>is_valid = True, message = ''OK'', severity = ''error''\<rparr>
                  else Inr invalid
              | Inl e \<Rightarrow> if e = ValueError \<or> e = TypeError then Inr invalid else Inl e))"

definition app_validate_rev_dato :: "pyval \<Rightarrow> validation_result" where
  "app_validate_rev_dato value =
     (if value = PNone \<or> strip (py_str value) = []
      then \<lparr>is_valid = False, message = ''Revisjonsdato mangler'', severity = ''error''\<rparr>
      else if DATE_PATTERN_match (strip (py_str value))
      then \<lparr>is_valid = True, message = ''OK'', severity = ''error''\<rparr>
      else \<lparr>is_valid = False,
             message = ''Ugyldig datoformat: '' @ apos @ py_str value @ apos @
                       '' (forventet: DD.MM.YYYY)'',
             severity = ''error''\<rparr>)"

definition app_validate_rev_beskrivelse :: "pyval \<Rightarrow> validation_result" where
  "app_validate_rev_beskrivelse value =
     (if value = PNone \<or> strip (py_str value) = []
      then \<lparr>is_valid = False, message = ''Revisjonsbeskrivelse mangler'',
             severity = ''error''\<rparr>
      else \<lparr>is_valid = True, message = ''OK'', severity = ''error''\<rparr>)"

definition app_validate_dimensions :: "(string \<rightharpoonup> pyval) \<Rightarrow> validation_result" where
  "app_validate_dimensions properties =
     (let bredde = dict_get properties ''A4_Utsp_DimBredde'';
          hoyde = dict_get properties (''A4_Utsp_DimH'' @ oslash @ ''yde'');
          diameter = dict_get properties ''A4_Utsp_DimDiameter''
      in
      if has_value bredde \<and> has_value hoyde
      then \<lparr>is_valid = True,
             message = ''Rektangul'' @ aelig @ ''r: Bredde og H'' @ oslash @ ''yde angitt'',
             severity = ''error''\<rparr>
      else if has_value diameter
      then \<lparr>is_valid = True, message = ''Rund: Diameter angitt'', severity = ''error''\<rparr>
      else if has_value bredde \<and> \<not> has_value hoyde
      then \<lparr>is_valid = False,
             message = ''Bredde angitt men H'' @ oslash @ ''yde mangler'',
             severity = ''error''\<rparr>
      else if has_value hoyde \<and> \<not> has_value bredde
      then \<lparr>is_valid = False,
             message = ''H'' @ oslash @ ''yde angitt men Bredde mangler'',
             severity = ''error''\<rparr>
      else \<lparr>is_valid = False,
             message = ''Dimensjoner mangler (enten Bredde+H'' @ oslash @
                       ''yde eller Diameter)'',
             severity = ''error''\<rparr>)"

definition app_PROPERTY_VALIDATORS ::
  "pylib \<Rightarrow> string \<rightharpoonup> (pyval \<Rightarrow> pyexn + validation_result)" where
  "app_PROPERTY_VALIDATORS L =
     [''A4_Utsp_Kategori'' \<mapsto> (\<lambda>v. Inr (app_validate_kategori v)),
      ''A4_Utsp_ID'' \<mapsto> (\<lambda>v. Inr (app_validate_id v None)),
      ''A4_Utsp_Utsparingstype'' \<mapsto> (\<lambda>v. Inr (app_validate_utsparingstype v)),
      ''A4_Utsp_Tetting'' \<mapsto> (\<lambda>v. Inr (app_validate_tetting v)),
      ''A4_Utsp_Funksjon'' \<mapsto> (\<lambda>v. Inr (app_validate_funksjon v)),
      ''A4_Utsp_Fase'' \<mapsto> (\<lambda>v. Inr (app_validate_fase v)),
      ''A4_Utsp_Status'' \<mapsto> (\<lambda>v. Inr (app_validate_status v)),
      ''A4_Utsp_Rev'' \<mapsto> app_validate_rev L,
      ''A4_Utsp_RevDato'' \<mapsto> (\<lambda>v. Inr (app_validate_rev_dato v)),
      ''A4_Utsp_RevBeskrivelse'' \<mapsto> (\<lambda>v. Inr (app_validate_rev_beskrivelse v))]"

section \<open>Sample library outcomes\<close>

text \<open>
  A table of outcomes of the library builtins, used by the examples. It agrees with Python on
  the inputs listed (\<open>int(float("-1")) = -1\<close>, \<open>int(float("3.0")) = 3\<close>,
  \<open>int(float("inf"))\<close> raises \<open>OverflowError\<close>, \<open>int(float("abc"))\<close> raises
  \<open>ValueError\<close>, \<open>Path("A4_RIV_Utsparinger.ifc").stem\<close>, and the name and text of a
  path that is a bare file name); the default entries stand for no other input.
\<close>

definition sample_lib :: pylib where
  "sample_lib =
     \<lparr>py_int_float =
        (\<lambda>v. if v = PStr ''-1'' then Inr (- 1)
             else if v = PStr ''3.0'' \<or> v = PFloat ''3.0'' then Inr 3
             else if v = PStr ''inf'' then Inl OverflowError
             else Inl ValueError),
      py_path_stem =
        (\<lambda>f. if f = ''A4_RIV_Utsparinger.ifc'' then ''A4_RIV_Utsparinger'' else f),
      py_path_name = (\<lambda>f. f),
      py_path_str = (\<lambda>f. f)\<rparr>"

section \<open>validate\_utsparinger.py and app.py: extraction and element validation\<close>

text \<open>
  What the program reads of a model element. An attribute that the file leaves unset is
  read as \<open>None\<close>. A property has a name and, when it has a nominal value, the wrapped
  primitive of that value. A property set has a name and its properties. An entry of
  \<open>IsDefinedBy\<close> is an \<open>IfcRelDefinesByProperties\<close> whose definition is a property set,
  something else, or unset; or it is another kind of relation.
\<close>

record ifc_property =
  prop_Name :: "string option"
  NominalValue :: "pyval option"

record property_set =
  pset_Name :: "string option"
  HasProperties :: "ifc_property list option"

datatype property_definition =
  IfcPropertySet property_set | OtherPropertyDefinition | NoPropertyDefinition

datatype ifc_rel = IfcRelDefinesByProperties property_definition | OtherRel

record ifc_element =
  GlobalId :: string
  elem_Name :: "string option"
  is_a :: string
  ObjectType :: "string option"
  IsDefinedBy :: "ifc_rel list"

text \<open>\<open>f"{pset_name}"\<close> for an optional name.\<close>

definition py_format :: "string option \<Rightarrow> string" where
  "py_format n = (case n of None \<Rightarrow> ''None'' | Some s \<Rightarrow> s)"

text \<open>
  \<open>any(prop.Name.startswith("A4_Utsp_") for prop in prop_def.HasProperties
  if hasattr(prop, 'Name'))\<close>. Every property has the attribute, so the filter passes it;
  \<open>startswith\<close> on a name that is \<open>None\<close> raises \<open>AttributeError\<close>. \<open>any\<close> stops at the
  first property whose name has the prefix.
\<close>

fun any_A4_Utsp :: "ifc_property list \<Rightarrow> pyexn + bool" where
  "any_A4_Utsp [] = Inr False"
| "any_A4_Utsp (prop # rest) =
     (case prop_Name prop of
        None \<Rightarrow> Inl AttributeError
      | Some n \<Rightarrow> if startswith n ''A4_Utsp_'' then Inr True else any_A4_Utsp rest)"

text \<open>The inner loop of \<open>get_element_properties\<close>: the values of one property set.\<close>

fun extract_values ::
  "ifc_property list \<Rightarrow> (string \<rightharpoonup> pyval) \<Rightarrow> pyexn + (string \<rightharpoonup> pyval)" where
  "extract_values [] properties = Inr properties"
| "extract_values (prop # rest) properties =
     (case prop_Name prop of
        None \<Rightarrow> Inl AttributeError
      | Some prop_name \<Rightarrow>
          if startswith prop_name ''A4_Utsp_'' \<or> prop_name \<in> set ALL_PROPERTIES
          then extract_values rest
                 (properties(prop_name \<mapsto>
                    (case NominalValue prop of None \<Rightarrow> PNone | Some w \<Rightarrow> w)))
          else extract_values rest properties)"

text \<open>
  The outer loop, over the entries of \<open>IsDefinedBy\<close>, with the three variables it
  updates: \<open>pset_name_found\<close>, \<open>properties\<close> and \<open>all_pset_names\<close>. \<open>is_a\<close> on a definition
  that is \<open>None\<close> raises \<open>AttributeError\<close>; iterating over properties that are \<open>None\<close>
  raises \<open>TypeError\<close>.
\<close>

fun scan_definitions ::
  "ifc_rel list \<Rightarrow> string option \<times> (string \<rightharpoonup> pyval) \<times> string option list \<Rightarrow>
   pyexn + string option \<times> (string \<rightharpoonup> pyval) \<times> string option list" where
  "scan_definitions [] st = Inr st"
| "scan_definitions (OtherRel # rest) st = scan_definitions rest st"
| "scan_definitions (IfcRelDefinesByProperties NoPropertyDefinition # rest) st =
     Inl AttributeError"
| "scan_definitions (IfcRelDefinesByProperties OtherPropertyDefinition # rest) st =
     scan_definitions rest st"
| "scan_definitions (IfcRelDefinesByProperties (IfcPropertySet prop_def) # rest)
       (pset_name_found, properties, all_pset_names) =
     (let pset_name = pset_Name prop_def;
          all_pset_names' = all_pset_names @ [pset_name];
          located =
            (if pset_name = Some REQUIRED_PSET then Inr (Some REQUIRED_PSET)
             else
               (case HasProperties prop_def of
                  None \<Rightarrow> Inl TypeError
                | Some props \<Rightarrow>
                    (case any_A4_Utsp props of
                       Inl e \<Rightarrow> Inl e
                     | Inr misplaced \<Rightarrow>
                         if misplaced
                         then (if pset_name_found = None
                               then Inr (Some (py_format pset_name @ '' (feil plassering)''))
                               else Inr pset_name_found)
                         else Inr pset_name_found)))
      in case located of
           Inl e \<Rightarrow> Inl e
         | Inr pset_name_found' \<Rightarrow>
             (case HasProperties prop_def of
                None \<Rightarrow> Inl TypeError
              | Some props \<Rightarrow>
                  (case extract_values props properties of
                     Inl e \<Rightarrow> Inl e
                   | Inr properties' \<Rightarrow>
                       scan_definitions rest
                         (pset_name_found', properties', all_pset_names'))))"

definition get_element_properties ::
  "ifc_element \<Rightarrow> pyexn + string option \<times> (string \<rightharpoonup> pyval) \<times> string option list" where
  "get_element_properties element =
     (if IsDefinedBy element = [] then Inr (None, Map.empty, [])
      else scan_definitions (IsDefinedBy element) (None, Map.empty, []))"

record element_validation =
  guid :: string
  element_name :: string
  element_type :: string
  object_type :: "string option"
  has_pset :: bool
  pset_name_found :: "string option"
  all_psets :: "string option list"
  properties_found :: "string \<rightharpoonup> pyval"
  property_validations :: "string \<rightharpoonup> validation_result"
  dimension_validation :: "validation_result option"
  overall_status :: string
  error_count :: int
  warning_count :: int

text \<open>
  \<open>validate_element\<close> has the same body in both files and differs in the module globals
  it reads: the table \<open>PROPERTY_VALIDATORS\<close>, \<open>validate_id\<close> and \<open>validate_dimensions\<close>.
  They are passed as a record.
\<close>

record rules_module =
  mod_PROPERTY_VALIDATORS :: "string \<rightharpoonup> (pyval \<Rightarrow> pyexn + validation_result)"
  mod_validate_id :: "pyval \<Rightarrow> string option \<Rightarrow> validation_result"
  mod_validate_dimensions :: "(string \<rightharpoonup> pyval) \<Rightarrow> validation_result"

definition validation_rules :: "pylib \<Rightarrow> rules_module" where
  "validation_rules L =
     \<lparr>mod_PROPERTY_VALIDATORS = PROPERTY_VALIDATORS L,
      mod_validate_id = validate_id,
      mod_validate_dimensions = validate_dimensions\<rparr>"

definition app_rules :: "pylib \<Rightarrow> rules_module" where
  "app_rules L =
     \<lparr>mod_PROPERTY_VALIDATORS = app_PROPERTY_VALIDATORS L,
      mod_validate_id = app_validate_id,
      mod_validate_dimensions = app_validate_dimensions\<rparr>"

text \<open>The counting after each required property.\<close>

definition tally :: "validation_result \<Rightarrow> int \<times> int \<Rightarrow> int \<times> int" where
  "tally result c =
     (case c of (errors, warnings) \<Rightarrow>
        if \<not> is_valid result
        then (if severity result = ''error'' then (errors + 1, warnings)
              else if severity result = ''warning'' then (errors, warnings + 1)
              else (errors, warnings))
        else if severity result = ''warning'' then (errors, warnings + 1)
        else (errors, warnings))"

text \<open>The loop over \<open>REQUIRED_PROPERTIES\<close>; an exception of a validator ends it.\<close>

fun validate_required ::
  "rules_module \<Rightarrow> (string \<rightharpoonup> pyval) \<Rightarrow> string option \<Rightarrow> string list \<Rightarrow>
   (string \<rightharpoonup> validation_result) \<times> int \<times> int \<Rightarrow>
   pyexn + (string \<rightharpoonup> validation_result) \<times> int \<times> int" where
  "validate_required M properties expected_prefix [] st = Inr st"
| "validate_required M properties expected_prefix (prop_name # rest) (pv, c) =
     (let value = dict_get properties prop_name;
          outcome =
            (case mod_PROPERTY_VALIDATORS M prop_name of
               Some validator \<Rightarrow>
                 if prop_name = ''A4_Utsp_ID''
                 then Inr (mod_validate_id M value expected_prefix)
                 else validator value
             | None \<Rightarrow>
                 if value = PNone \<or> strip (py_str value) = []
                 then Inr \<lparr>is_valid = False, message = ''Mangler verdi'',
                          severity = ''error''\<rparr>
                 else Inr \<lparr>is_valid = True, message = ''OK'', severity = ''error''\<rparr>)
      in case outcome of
           Inl e \<Rightarrow> Inl e
         | Inr result \<Rightarrow>
             validate_required M properties expected_prefix rest
               (pv(prop_name \<mapsto> result), tally result c))"

text \<open>The loop over \<open>OPTIONAL_PROPERTIES\<close>.\<close>

fun validate_optional ::
  "rules_module \<Rightarrow> (string \<rightharpoonup> pyval) \<Rightarrow> string list \<Rightarrow>
   (string \<rightharpoonup> validation_result) \<times> int \<times> int \<Rightarrow>
   pyexn + (string \<rightharpoonup> validation_result) \<times> int \<times> int" where
  "validate_optional M properties [] st = Inr st"
| "validate_optional M properties (prop_name # rest) (pv, errors, warnings) =
     (case properties prop_name of
        None \<Rightarrow> validate_optional M properties rest (pv, errors, warnings)
      | Some v \<Rightarrow>
          (case mod_PROPERTY_VALIDATORS M prop_name of
             None \<Rightarrow> validate_optional M properties rest (pv, errors, warnings)
           | Some validator \<Rightarrow>
               (case validator v of
                  Inl e \<Rightarrow> Inl e
                | Inr result \<Rightarrow>
                    validate_optional M properties rest
                      (pv(prop_name \<mapsto> result), errors,
                       if severity result = ''warning'' then warnings + 1
                       else warnings))))"

definition validate_element ::
  "rules_module \<Rightarrow> ifc_element \<Rightarrow> string option \<Rightarrow> pyexn + element_validation" where
  "validate_element M element expected_prefix =
     (let element_name =
            (case elem_Name element of
               None \<Rightarrow> ''(uten navn)''
             | Some n \<Rightarrow> if n = [] then ''(uten navn)'' else n)
      in
      case get_element_properties element of
        Inl e \<Rightarrow> Inl e
      | Inr (found, properties, names) \<Rightarrow>
          if found = None
          then Inr \<lparr>guid = GlobalId element, element_name = element_name,
                    element_type = is_a element, object_type = ObjectType element,
                    has_pset = False, pset_name_found = None, all_psets = names,
                    properties_found = Map.empty, property_validations = Map.empty,
                    dimension_validation = None, overall_status = ''Mangler pset'',
                    error_count = 1, warning_count = 0\<rparr>
          else
            (case validate_required M properties expected_prefix REQUIRED_PROPERTIES
                    (Map.empty, 0, 0) of
               Inl e \<Rightarrow> Inl e
             | Inr st \<Rightarrow>
                 (case validate_optional M properties OPTIONAL_PROPERTIES st of
                    Inl e \<Rightarrow> Inl e
                  | Inr (validations, errors, warnings) \<Rightarrow>
                      let dim_result = mod_validate_dimensions M properties;
                          errors' = (if \<not> is_valid dim_result then errors + 1 else errors);
                          warnings' =
                            (if found \<noteq> None \<and> found \<noteq> Some [] \<and>
                                found \<noteq> Some REQUIRED_PSET
                             then warnings + 1 else warnings);
                          status =
                            (if errors' > 0 then ''Feil''
                             else if warnings' > 0 then ''Advarsel''
                             else ''OK'')
                      in Inr \<lparr>guid = GlobalId element, element_name = element_name,
                               element_type = is_a element,
                               object_type = ObjectType element,
                               has_pset = (found = Some REQUIRED_PSET),
                               pset_name_found = found, all_psets = names,
                               properties_found = properties,
                               property_validations = validations,
                               dimension_validation = Some dim_result,
                               overall_status = status,
                               error_count = errors', warning_count = warnings'\<rparr>)))"

section \<open>File validation\<close>

record summary =
  sum_total :: int
  sum_ok :: int
  sum_feil :: int
  sum_advarsel :: int
  sum_mangler_pset :: int
  sum_has_pset :: int
  sum_total_errors :: int
  sum_total_warnings :: int

text \<open>\<open>sum(1 for e in elements if p(e))\<close>\<close>

definition count_if :: "('a \<Rightarrow> bool) \<Rightarrow> 'a list \<Rightarrow> int" where
  "count_if p xs = sum_list (map (\<lambda>e. 1) (filter p xs))"

definition calculate_summary :: "element_validation list \<Rightarrow> summary" where
  "calculate_summary es =
     \<lparr>sum_total = int (length es),
      sum_ok = count_if (\<lambda>e. overall_status e = ''OK'') es,
      sum_feil = count_if (\<lambda>e. overall_status e = ''Feil'') es,
      sum_advarsel = count_if (\<lambda>e. overall_status e = ''Advarsel'') es,
      sum_mangler_pset = count_if (\<lambda>e. overall_status e = ''Mangler pset'') es,
      sum_has_pset = count_if has_pset es,
      sum_total_errors = sum_list (map error_count es),
      sum_total_warnings = sum_list (map warning_count es)\<rparr>"

text \<open>\<open>extract_file_prefix\<close> of \<open>validate_utsparinger.py\<close>, and the copy in \<open>app.py\<close>, which
  has no test on the number of parts.\<close>

definition extract_file_prefix :: "pylib \<Rightarrow> string \<Rightarrow> string option" where
  "extract_file_prefix L filename =
     (let name = py_path_stem L filename;
          parts = split_on CHR ''_'' name
      in if length parts \<ge> 2
         then find (\<lambda>part. part \<in> set [''RIV'', ''RIE'', ''RIVA'']) parts
         else None)"

definition app_extract_file_prefix :: "pylib \<Rightarrow> string \<Rightarrow> string option" where
  "app_extract_file_prefix L filename =
     (let name = py_path_stem L filename;
          parts = split_on CHR ''_'' name
      in find (\<lambda>part. part \<in> set [''RIV'', ''RIE'', ''RIVA'']) parts)"

text \<open>The loop of \<open>validate_ifc_file\<close> over the elements, in order.\<close>

fun validate_elements ::
  "rules_module \<Rightarrow> ifc_element list \<Rightarrow> string option \<Rightarrow> pyexn + element_validation list" where
  "validate_elements M [] expected_prefix = Inr []"
| "validate_elements M (element # rest) expected_prefix =
     (case validate_element M element expected_prefix of
        Inl e \<Rightarrow> Inl e
      | Inr validation \<Rightarrow>
          (case validate_elements M rest expected_prefix of
             Inl e \<Rightarrow> Inl e
           | Inr validated \<Rightarrow> Inr (validation # validated)))"

record file_validation =
  filename :: string
  filepath :: string
  total_elements :: int
  elements :: "element_validation list"
  file_summary :: summary

text \<open>
  \<open>validate_ifc_file\<close> of \<open>validate_utsparinger.py\<close>. \<open>ifc_open\<close> stands for
  \<open>ifcopenshell.open\<close> followed by \<open>by_type("IfcBuildingElementProxy")\<close>: the elements of
  that type in the model's order, or the exception raised. Printing is left out.
\<close>

definition validate_ifc_file ::
  "pylib \<Rightarrow> (string \<Rightarrow> pyexn + ifc_element list) \<Rightarrow> string \<Rightarrow> pyexn + file_validation" where
  "validate_ifc_file L ifc_open path =
     (case ifc_open path of
        Inl e \<Rightarrow> Inl e
      | Inr model_elements \<Rightarrow>
          let expected_prefix = extract_file_prefix L (py_path_name L path) in
          (case validate_elements (validation_rules L) model_elements expected_prefix of
             Inl e \<Rightarrow> Inl e
           | Inr validated \<Rightarrow>
               Inr \<lparr>filename = py_path_name L path, filepath = py_path_str L path,
                    total_elements = int (length model_elements),
                    elements = validated,
                    file_summary = calculate_summary validated\<rparr>))"

section \<open>app.py: uploads and their temporary copies\<close>

text \<open>
  The file system is a map from paths to contents. \<open>tmp_path\<close> is the name that
  \<open>NamedTemporaryFile(suffix='.ifc', delete=False)\<close> chose; the file stays after the
  \<open>with\<close> block. \<open>ifc_open fs p\<close> stands for \<open>ifcopenshell.open(p)\<close> and, in
  \<open>validate_ifc_file\<close>, the \<open>by_type\<close> call after it.
\<close>

type_synonym filesystem = "string \<rightharpoonup> string"

definition unlink :: "filesystem \<Rightarrow> string \<Rightarrow> pyexn + filesystem" where
  "unlink fs p = (if fs p = None then Inl FileNotFoundError else Inr (fs(p := None)))"

record app_file_validation =
  app_filename :: string
  app_total_elements :: int
  app_elements :: "element_validation list"
  app_summary :: summary

definition app_validate_ifc_file ::
  "pylib \<Rightarrow> (filesystem \<Rightarrow> string \<Rightarrow> pyexn + ifc_element list) \<Rightarrow> filesystem \<Rightarrow> string \<Rightarrow>
   string \<Rightarrow> string \<Rightarrow> filesystem \<times> (pyexn + app_file_validation)" where
  "app_validate_ifc_file L ifc_open fs tmp_path file_content name =
     (let fs1 = fs(tmp_path \<mapsto> file_content) in
      case ifc_open fs1 tmp_path of
        Inl e \<Rightarrow> (fs1, Inl e)
      | Inr model_elements \<Rightarrow>
          let expected_prefix = app_extract_file_prefix L name in
          (case validate_elements (app_rules L) model_elements expected_prefix of
             Inl e \<Rightarrow> (fs1, Inl e)
           | Inr validated \<Rightarrow>
               let file_validation =
                     \<lparr>app_filename = name,
                      app_total_elements = int (length model_elements),
                      app_elements = validated,
                      app_summary = calculate_summary validated\<rparr>
               in (case unlink fs1 tmp_path of
                     Inl e \<Rightarrow> (fs1, Inl e)
                   | Inr fs2 \<Rightarrow> (fs2, Inr file_validation))))"

text \<open>\<open>s.replace(old, new)\<close>\<close>

fun py_replace :: "string \<Rightarrow> string \<Rightarrow> string \<Rightarrow> string" where
  "py_replace s [] new = new @ concat (map (\<lambda>c. c # new) s)"
| "py_replace [] (x # old) new = []"
| "py_replace (c # cs) (x # old) new =
     (if take (length (x # old)) (c # cs) = x # old
      then new @ py_replace (drop (length old) cs) (x # old) new
      else c # py_replace cs (x # old) new)"

text \<open>
  \<open>create_validated_ifc\<close>. Between opening the model and reading the written file back,
  the function creates entities in the model and calls \<open>model.write(output_path)\<close>;
  neither touches the temporary copy. \<open>annotate model validation\<close> stands for both: the
  bytes written, or the exception raised.
\<close>

definition create_validated_ifc ::
  "(filesystem \<Rightarrow> string \<Rightarrow> pyexn + 'm) \<Rightarrow> ('m \<Rightarrow> app_file_validation \<Rightarrow> pyexn + string) \<Rightarrow>
   filesystem \<Rightarrow> string \<Rightarrow> string \<Rightarrow> string \<Rightarrow> app_file_validation \<Rightarrow>
   filesystem \<times> (pyexn + string)" where
  "create_validated_ifc ifc_open annotate fs tmp_path file_content name validation =
     (let fs1 = fs(tmp_path \<mapsto> file_content) in
      case ifc_open fs1 tmp_path of
        Inl e \<Rightarrow> (fs1, Inl e)
      | Inr model \<Rightarrow>
          (case annotate model validation of
             Inl e \<Rightarrow> (fs1, Inl e)
           | Inr written \<Rightarrow>
               let output_path = py_replace tmp_path ''.ifc'' ''_validert.ifc'';
                   fs2 = fs1(output_path \<mapsto> written)
               in (case unlink fs2 tmp_path of
                     Inl e \<Rightarrow> (fs2, Inl e)
                   | Inr fs3 \<Rightarrow>
                       (case unlink fs3 output_path of
                          Inl e \<Rightarrow> (fs3, Inl e)
                        | Inr fs4 \<Rightarrow> (fs4, Inr written)))))"

section \<open>Notions used to state the properties\<close>

text \<open>The property sets among an element's relations, in order: the entries the loop of
  \<open>get_element_properties\<close> does not skip.\<close>

fun property_sets :: "ifc_rel list \<Rightarrow> property_set list" where
  "property_sets [] = []"
| "property_sets (IfcRelDefinesByProperties (IfcPropertySet ps) # rest) =
     ps # property_sets rest"
| "property_sets (r # rest) = property_sets rest"

text \<open>A property set that holds a property whose name starts with \<open>A4_Utsp_\<close>.\<close>

definition holds_A4_Utsp :: "property_set \<Rightarrow> bool" where
  "holds_A4_Utsp ps =
     (\<exists>q \<in> set (case HasProperties ps of None \<Rightarrow> [] | Some l \<Rightarrow> l).
        \<exists>m. prop_Name q = Some m \<and> take 8 m = ''A4_Utsp_'')"

section \<open>A sample model\<close>

text \<open>
  Three elements. \<open>element_A\<close> carries the property set \<open>A4_Utsp\<close> with every required
  property valid and a width and a height. \<open>element_B\<close> has no property set.
  \<open>element_C\<close> carries the same properties as \<open>element_A\<close> in a set of another name.
\<close>

definition sample_properties :: "ifc_property list" where
  "sample_properties =
     [\<lparr>prop_Name = Some ''A4_Utsp_Kategori'', NominalValue = Some (PStr ''ProvisionForVoid'')\<rparr>,
      \<lparr>prop_Name = Some ''A4_Utsp_ID'', NominalValue = Some (PStr ''RIV_Hull-1'')\<rparr>,
      \<lparr>prop_Name = Some ''A4_Utsp_Utsparingstype'', NominalValue = Some (PStr ''Utsparing'')\<rparr>,
      \<lparr>prop_Name = Some ''A4_Utsp_Tetting'', NominalValue = Some (PStr ''Ja'')\<rparr>,
      \<lparr>prop_Name = Some ''A4_Utsp_Fase'', NominalValue = Some (PStr ''Fase 1'')\<rparr>,
      \<lparr>prop_Name = Some ''A4_Utsp_Status'', NominalValue = Some (PStr ''Godkjent'')\<rparr>,
      \<lparr>prop_Name = Some ''A4_Utsp_Rev'', NominalValue = Some (PInt 0)\<rparr>,
      \<lparr>prop_Name = Some ''A4_Utsp_RevDato'', NominalValue = Some (PStr ''01.01.2024'')\<rparr>,
      \<lparr>prop_Name = Some ''A4_Utsp_RevBeskrivelse'', NominalValue = Some (PStr ''Initial'')\<rparr>,
      \<lparr>prop_Name = Some ''A4_Utsp_DimBredde'', NominalValue = Some (PInt 200)\<rparr>,
      \<lparr>prop_Name = Some (''A4_Utsp_DimH'' @ oslash @ ''yde''), NominalValue = Some (PInt 300)\<rparr>]"

definition element_A :: ifc_element where
  "element_A =
     \<lparr>GlobalId = ''A'', elem_Name = Some ''Hull 1'', is_a = ''IfcBuildingElementProxy'',
      ObjectType = Some ''ProvisionForVoid'',
      IsDefinedBy =
        [OtherRel,
         IfcRelDefinesByProperties
           (IfcPropertySet \<lparr>pset_Name = Some ''A4_Utsp'', HasProperties = Some sample_properties\<rparr>)]\<rparr>"

definition element_B :: ifc_element where
  "element_B =
     \<lparr>GlobalId = ''B'', elem_Name = None, is_a = ''IfcBuildingElementProxy'',
      ObjectType = None, IsDefinedBy = []\<rparr>"

definition element_C :: ifc_element where
  "element_C =
     \<lparr>GlobalId = ''C'', elem_Name = Some ''Hull 2'', is_a = ''IfcBuildingElementProxy'',
      ObjectType = None,
      IsDefinedBy =
        [IfcRelDefinesByProperties
           (IfcPropertySet \<lparr>pset_Name = Some ''Egenskaper'', HasProperties = Some sample_properties\<rparr>)]\<rparr>"

text \<open>\<open>element_D\<close> carries the property set \<open>A4_Utsp\<close> with the single property
  \<open>A4_Utsp_Rev\<close>, whose value is the text \<open>inf\<close>.\<close>

definition element_D :: ifc_element where
  "element_D =
     \<lparr>GlobalId = ''D'', elem_Name = Some ''Hull 3'', is_a = ''IfcBuildingElementProxy'',
      ObjectType = None,
      IsDefinedBy =
        [IfcRelDefinesByProperties
           (IfcPropertySet
              \<lparr>pset_Name = Some ''A4_Utsp'',
               HasProperties =
                 Some [\<lparr>prop_Name = Some ''A4_Utsp_Rev'',
                        NominalValue = Some (PStr ''inf'')\<rparr>]\<rparr>)]\<rparr>"

text \<open>\<open>element_E\<close> carries the property set \<open>A4_Utsp\<close> with one property whose name is
  unset.\<close>

definition element_E :: ifc_element where
  "element_E =
     \<lparr>GlobalId = ''E'', elem_Name = Some ''Hull 4'', is_a = ''IfcBuildingElementProxy'',
      ObjectType = None,
      IsDefinedBy =
        [IfcRelDefinesByProperties
           (IfcPropertySet
              \<lparr>pset_Name = Some ''A4_Utsp'',
               HasProperties =
                 Some [\<lparr>prop_Name = None, NominalValue = Some (PStr ''x'')\<rparr>]\<rparr>)]\<rparr>"

section \<open>Verified properties\<close>

subsection \<open>The dimension check\<close>

lemma has_value_iff:
  "has_value v \<longleftrightarrow>
     v \<noteq> PNone \<and> strip (py_str v) \<noteq> [] \<and> strip (py_str v) \<noteq> ''0'' \<and>
     strip (py_str v) \<noteq> ''0.0''"
  unfolding has_value_def Let_def by (cases "v = PNone") simp_all

lemma dict_get_other: "k' \<noteq> k \<Longrightarrow> dict_get (d(k := x)) k' = dict_get d k'"
  by (simp add: dict_get_def)

lemma validate_dimensions_depth:
  "validate_dimensions (props(''A4_Utsp_DimDybde'' := dybde)) = validate_dimensions props"
proof -
  have k1: "''A4_Utsp_DimBredde'' \<noteq> ''A4_Utsp_DimDybde''" by simp
  have k2: "''A4_Utsp_DimH'' @ oslash @ ''yde'' \<noteq> ''A4_Utsp_DimDybde''" by simp
  have k3: "''A4_Utsp_DimDiameter'' \<noteq> ''A4_Utsp_DimDybde''" by simp
  show ?thesis
    unfolding validate_dimensions_def Let_def
    by (simp only: dict_get_other[OF k1] dict_get_other[OF k2] dict_get_other[OF k3])
qed

lemma validate_dimensions_cases:
  fixes props
  defines "W \<equiv> has_value (dict_get props ''A4_Utsp_DimBredde'')"
      and "H \<equiv> has_value (dict_get props (''A4_Utsp_DimH'' @ oslash @ ''yde''))"
      and "D \<equiv> has_value (dict_get props ''A4_Utsp_DimDiameter'')"
  shows "validate_dimensions props =
     (if W \<and> H then \<lparr>is_valid = True,
          message = ''Rektangul'' @ aelig @ ''r: Bredde og H'' @ oslash @ ''yde angitt'',
          severity = ''error''\<rparr>
      else if D then \<lparr>is_valid = True, message = ''Rund: Diameter angitt'', severity = ''error''\<rparr>
      else if W then \<lparr>is_valid = False, message = ''Bredde angitt men H'' @ oslash @ ''yde mangler'',
          severity = ''error''\<rparr>
      else if H then \<lparr>is_valid = False, message = ''H'' @ oslash @ ''yde angitt men Bredde mangler'',
          severity = ''error''\<rparr>
      else \<lparr>is_valid = False,
          message = ''Dimensjoner mangler (enten Bredde+H'' @ oslash @ ''yde eller Diameter)'',
          severity = ''error''\<rparr>)"
  unfolding validate_dimensions_def Let_def W_def H_def D_def
  by (cases "has_value (dict_get props ''A4_Utsp_DimBredde'')";
      cases "has_value (dict_get props (''A4_Utsp_DimH'' @ oslash @ ''yde''))";
      cases "has_value (dict_get props ''A4_Utsp_DimDiameter'')") (simp_all only: simp_thms if_True if_False)

text \<open>
  C4. \<open>validate_dimensions\<close> decides by the first matching case over "has value" (present,
  non-empty after trimming, and neither \<open>0\<close> nor \<open>0.0\<close>): width and height give the
  rectangular message; otherwise a diameter gives the round message; otherwise width
  without height, and height without width, fail with their own messages; otherwise the
  generic failure. The depth entry of the mapping never changes the result.
\<close>

theorem validate_dimensions_first_match:
  "let W = has_value (dict_get props ''A4_Utsp_DimBredde'');
       H = has_value (dict_get props (''A4_Utsp_DimH'' @ oslash @ ''yde''));
       D = has_value (dict_get props ''A4_Utsp_DimDiameter'')
   in (has_value v \<longleftrightarrow>
         v \<noteq> PNone \<and> strip (py_str v) \<noteq> [] \<and> strip (py_str v) \<noteq> ''0'' \<and>
         strip (py_str v) \<noteq> ''0.0'') \<and>
      (W \<and> H \<longrightarrow> validate_dimensions props =
         \<lparr>is_valid = True,
          message = ''Rektangul'' @ aelig @ ''r: Bredde og H'' @ oslash @ ''yde angitt'',
          severity = ''error''\<rparr>) \<and>
      (\<not> (W \<and> H) \<and> D \<longrightarrow> validate_dimensions props =
         \<lparr>is_valid = True, message = ''Rund: Diameter angitt'', severity = ''error''\<rparr>) \<and>
      (W \<and> \<not> H \<and> \<not> D \<longrightarrow> validate_dimensions props =
         \<lparr>is_valid = False, message = ''Bredde angitt men H'' @ oslash @ ''yde mangler'',
          severity = ''error''\<rparr>) \<and>
      (H \<and> \<not> W \<and> \<not> D \<longrightarrow> validate_dimensions props =
         \<lparr>is_valid = False, message = ''H'' @ oslash @ ''yde angitt men Bredde mangler'',
          severity = ''error''\<rparr>) \<and>
      (\<not> W \<and> \<not> H \<and> \<not> D \<longrightarrow> validate_dimensions props =
         \<lparr>is_valid = False,
          message = ''Dimensjoner mangler (enten Bredde+H'' @ oslash @ ''yde eller Diameter)'',
          severity = ''error''\<rparr>) \<and>
      validate_dimensions (props(''A4_Utsp_DimDybde'' := dybde)) = validate_dimensions props"
  unfolding Let_def
proof (intro conjI impI)
  show "validate_dimensions (props(''A4_Utsp_DimDybde'' := dybde)) = validate_dimensions props"
    by (rule validate_dimensions_depth)
qed (rule has_value_iff, simp_all only: validate_dimensions_cases simp_thms if_True if_False)

theorem validate_dimensions_first_match_witness:
  "has_value (PInt 200) \<and> \<not> has_value (PFloat ''0.0'') \<and> \<not> has_value PNone \<and>
   validate_dimensions
     [''A4_Utsp_DimBredde'' \<mapsto> PInt 200,
      ''A4_Utsp_DimH'' @ oslash @ ''yde'' \<mapsto> PFloat ''0.0''] =
     \<lparr>is_valid = False, message = ''Bredde angitt men H'' @ oslash @ ''yde mangler'',
      severity = ''error''\<rparr>"
proof -
  let ?p = "[''A4_Utsp_DimBredde'' \<mapsto> PInt 200,
             ''A4_Utsp_DimH'' @ oslash @ ''yde'' \<mapsto> PFloat ''0.0'']"
  have s200: "strip (py_str (PInt 200)) = ''200''"
    by (simp add: strip_def is_space_def str_nat.simps digit_char_def)
  have s0: "strip (py_str (PFloat ''0.0'')) = ''0.0''"
    by (simp add: strip_def is_space_def)
  have gw: "dict_get ?p ''A4_Utsp_DimBredde'' = PInt 200" by (simp add: dict_get_def)
  have gh: "dict_get ?p (''A4_Utsp_DimH'' @ oslash @ ''yde'') = PFloat ''0.0''"
    by (simp add: dict_get_def)
  have gd: "dict_get ?p ''A4_Utsp_DimDiameter'' = PNone" by (simp add: dict_get_def)
  note t = validate_dimensions_first_match[of ?p, unfolded Let_def gw gh gd]
  have W: "has_value (PInt 200)" using t[of "PInt 200"] s200 by simp
  have nH: "\<not> has_value (PFloat ''0.0'')" using t[of "PFloat ''0.0''"] s0 by simp
  have nD: "\<not> has_value PNone" using t[of PNone] by simp
  from t[of PNone] W nH nD show ?thesis by blast
qed

subsection \<open>The Funksjon validator\<close>

lemma app_validate_funksjon_eq: "app_validate_funksjon v = validate_funksjon v"
  by (simp add: app_validate_funksjon_def validate_funksjon_def)

text \<open>
  C8. \<open>validate_funksjon\<close> always returns a passed outcome. An absent or empty value gives
  severity \<open>info\<close>; a value with some trimmed comma-separated token that is non-empty and
  not one of the four known functions gives severity \<open>warning\<close> with the unknown tokens
  listed; every other value gives the outcome with message \<open>OK\<close> (whose severity field
  holds the constructor's default). The copy in \<open>app.py\<close> is the same function.
\<close>

theorem validate_funksjon_passes:
  "let absent = (v = PNone \<or> strip (py_str v) = []);
       known = [''B'' @ aelig @ ''ring'', ''Vanntetting'', ''Brann'', ''Lyd''];
       tokens = map strip (split_on CHR '','' (strip (py_str v)));
       unknown = filter (\<lambda>t. t \<noteq> [] \<and> t \<notin> set known) tokens
   in is_valid (validate_funksjon v) \<and>
      (absent \<longrightarrow> severity (validate_funksjon v) = ''info'') \<and>
      (\<not> absent \<and> (\<exists>t \<in> set tokens. t \<noteq> [] \<and> t \<notin> set known) \<longrightarrow>
         validate_funksjon v =
           \<lparr>is_valid = True, message = ''Ukjent funksjon: '' @ join '', '' unknown,
            severity = ''warning''\<rparr>) \<and>
      (\<not> absent \<and> \<not> (\<exists>t \<in> set tokens. t \<noteq> [] \<and> t \<notin> set known) \<longrightarrow>
         validate_funksjon v = \<lparr>is_valid = True, message = ''OK'', severity = ''error''\<rparr>) \<and>
      app_validate_funksjon v = validate_funksjon v"
proof -
  have ne: "\<And>P xs. (filter P xs \<noteq> []) = (\<exists>x \<in> set xs. P x)"
    by (simp add: filter_empty_conv)
  show ?thesis
    unfolding Let_def validate_funksjon_def VALID_FUNKSJON_def ne app_validate_funksjon_eq
    by (cases "v = PNone \<or> strip (py_str v) = []") (simp_all only: simp_thms if_True if_False
        validation_result.simps validate_funksjon_def VALID_FUNKSJON_def Let_def ne, simp_all)
qed

theorem validate_funksjon_passes_witness:
  "validate_funksjon PNone =
     \<lparr>is_valid = True, message = ''Funksjon ikke angitt (valgfritt)'', severity = ''info''\<rparr> \<and>
   validate_funksjon (PStr ''Brann, Foo'') =
     \<lparr>is_valid = True, message = ''Ukjent funksjon: Foo'', severity = ''warning''\<rparr> \<and>
   validate_funksjon (PStr ''Brann,Lyd'') =
     \<lparr>is_valid = True, message = ''OK'', severity = ''error''\<rparr>"
proof -
  have s1: "strip (py_str (PStr ''Brann, Foo'')) = ''Brann, Foo''"
    by (simp add: strip_def is_space_def)
  have t1: "map strip (split_on CHR '','' ''Brann, Foo'') = [''Brann'', ''Foo'']"
    by (simp add: strip_def is_space_def)
  have s2: "strip (py_str (PStr ''Brann,Lyd'')) = ''Brann,Lyd''"
    by (simp add: strip_def is_space_def)
  have t2: "map strip (split_on CHR '','' ''Brann,Lyd'') = [''Brann'', ''Lyd'']"
    by (simp add: strip_def is_space_def)
  note a = validate_funksjon_passes[of PNone, unfolded Let_def]
  note b = validate_funksjon_passes[of "PStr ''Brann, Foo''", unfolded Let_def s1 t1]
  note c = validate_funksjon_passes[of "PStr ''Brann,Lyd''", unfolded Let_def s2 t2]
  have 1: "validate_funksjon PNone =
     \<lparr>is_valid = True, message = ''Funksjon ikke angitt (valgfritt)'', severity = ''info''\<rparr>"
    by (simp add: validate_funksjon_def)
  have 2: "validate_funksjon (PStr ''Brann, Foo'') =
     \<lparr>is_valid = True, message = ''Ukjent funksjon: Foo'', severity = ''warning''\<rparr>"
    using b by simp
  have 3: "validate_funksjon (PStr ''Brann,Lyd'') =
     \<lparr>is_valid = True, message = ''OK'', severity = ''error''\<rparr>"
    using c by simp
  from a 1 2 3 show ?thesis by simp
qed

subsection \<open>The revision validator\<close>

lemma strip_last_not_space: "strip s = xs @ [c] \<Longrightarrow> \<not> is_space c"
proof -
  assume a: "strip s = xs @ [c]"
  have "rev (strip s) = dropWhile is_space (rev (dropWhile is_space s))"
    by (simp add: strip_def)
  with a have "dropWhile is_space (rev (dropWhile is_space s)) = c # rev xs" by simp
  then show ?thesis using hd_dropWhile[of is_space "rev (dropWhile is_space s)"] by auto
qed

lemma newline_is_space: "is_space (CHR 0x0A)"
  by (simp add: is_space_def)

text \<open>On a trimmed string the pattern \<open>^\d+$\<close> matches exactly the non-empty digit strings:
  the newline that \<open>$\<close> tolerates cannot end a trimmed string.\<close>

lemma REV_PATTERN_match_strip:
  "REV_PATTERN_match (strip s) \<longleftrightarrow> strip s \<noteq> [] \<and> list_all is_digit (strip s)"
proof -
  let ?t = "strip s"
  have split: "?t = takeWhile is_digit ?t @ dropWhile is_digit ?t" by simp
  have no_nl: "dropWhile is_digit ?t \<noteq> [CHR 0x0A]"
  proof
    assume "dropWhile is_digit ?t = [CHR 0x0A]"
    with split have "?t = takeWhile is_digit ?t @ [CHR 0x0A]" by simp
    from strip_last_not_space[OF this] newline_is_space show False by simp
  qed
  have all: "dropWhile is_digit ?t = [] \<longleftrightarrow> list_all is_digit ?t"
    by (simp add: dropWhile_eq_Nil_conv list_all_iff)
  have tk: "list_all is_digit ?t \<Longrightarrow> takeWhile is_digit ?t = ?t"
    by (simp add: list_all_iff)
  have ne: "takeWhile is_digit ?t \<noteq> [] \<Longrightarrow> ?t \<noteq> []"
    by auto
  show ?thesis
    unfolding REV_PATTERN_match_def at_end_def using no_nl all tk ne by metis
qed

lemma validate_rev_Inr_valid:
  "(\<exists>r. validate_rev L v = Inr r \<and> is_valid r) \<longleftrightarrow>
     v \<noteq> PNone \<and> strip (py_str v) \<noteq> [] \<and>
     (REV_PATTERN_match (strip (py_str v)) \<or> (\<exists>n. py_int_float L v = Inr n \<and> 0 \<le> n))"
  unfolding validate_rev_def Let_def
  by (auto split: sum.splits if_splits)

lemma minus_one_no_match: "\<not> REV_PATTERN_match (strip ''-1'')"
  by (simp add: REV_PATTERN_match_def strip_def is_space_def is_digit_def)

text \<open>
  C7. \<open>validate_rev\<close> accepts a value exactly when it is not absent, not empty after
  trimming, and either its trimmed text consists of digits only or \<open>int(float(value))\<close>
  yields a non-negative integer. The text \<open>-1\<close> is not matched by the pattern, and with
  \<open>int(float("-1")) = -1\<close> the fallback rejects it too: the outcome is an error. Absent and
  empty input are errors.
\<close>

theorem validate_rev_accepts_iff:
  "((\<exists>r. validate_rev L v = Inr r \<and> is_valid r) \<longleftrightarrow>
      v \<noteq> PNone \<and> strip (py_str v) \<noteq> [] \<and>
      (list_all is_digit (strip (py_str v)) \<or> (\<exists>n. py_int_float L v = Inr n \<and> 0 \<le> n))) \<and>
   (py_int_float L (PStr ''-1'') = Inr (- 1) \<longrightarrow>
      \<not> REV_PATTERN_match (strip ''-1'') \<and>
      validate_rev L (PStr ''-1'') =
        Inr \<lparr>is_valid = False,
             message = ''Ugyldig revisjonsnummer: '' @ apos @ ''-1'' @ apos @
                       '' (forventet: 0, 1, 2, ...)'',
             severity = ''error''\<rparr>) \<and>
   validate_rev L PNone =
     Inr \<lparr>is_valid = False, message = ''Revisjon mangler'', severity = ''error''\<rparr> \<and>
   (strip (py_str v) = [] \<longrightarrow>
      validate_rev L v =
        Inr \<lparr>is_valid = False, message = ''Revisjon mangler'', severity = ''error''\<rparr>)"
proof (intro conjI impI)
  show "(\<exists>r. validate_rev L v = Inr r \<and> is_valid r) \<longleftrightarrow>
      v \<noteq> PNone \<and> strip (py_str v) \<noteq> [] \<and>
      (list_all is_digit (strip (py_str v)) \<or> (\<exists>n. py_int_float L v = Inr n \<and> 0 \<le> n))"
    unfolding validate_rev_Inr_valid REV_PATTERN_match_strip by blast
next
  show "\<not> REV_PATTERN_match (strip ''-1'')" by (rule minus_one_no_match)
next
  assume m: "py_int_float L (PStr ''-1'') = Inr (- 1)"
  have s: "strip ''-1'' = ''-1''" by (simp add: strip_def is_space_def)
  show "validate_rev L (PStr ''-1'') =
        Inr \<lparr>is_valid = False,
             message = ''Ugyldig revisjonsnummer: '' @ apos @ ''-1'' @ apos @
                       '' (forventet: 0, 1, 2, ...)'',
             severity = ''error''\<rparr>"
    using minus_one_no_match m unfolding validate_rev_def Let_def s by (simp add: s)
next
  show "validate_rev L PNone =
     Inr \<lparr>is_valid = False, message = ''Revisjon mangler'', severity = ''error''\<rparr>"
    by (simp add: validate_rev_def)
next
  assume "strip (py_str v) = []"
  then show "validate_rev L v =
        Inr \<lparr>is_valid = False, message = ''Revisjon mangler'', severity = ''error''\<rparr>"
    by (simp add: validate_rev_def Let_def)
qed

theorem validate_rev_accepts_iff_witness:
  "py_int_float sample_lib (PStr ''-1'') = Inr (- 1) \<and>
   validate_rev sample_lib (PStr ''-1'') =
     Inr \<lparr>is_valid = False,
          message = ''Ugyldig revisjonsnummer: '' @ apos @ ''-1'' @ apos @
                    '' (forventet: 0, 1, 2, ...)'',
          severity = ''error''\<rparr> \<and>
   strip (py_str (PStr ''  '')) = [] \<and>
   validate_rev sample_lib (PStr ''  '') =
     Inr \<lparr>is_valid = False, message = ''Revisjon mangler'', severity = ''error''\<rparr> \<and>
   (\<exists>r. validate_rev sample_lib (PStr ''3.0'') = Inr r \<and> is_valid r) \<and>
   (\<exists>r. validate_rev sample_lib (PInt 42) = Inr r \<and> is_valid r) \<and>
   \<not> (\<exists>r. validate_rev sample_lib (PStr ''abc'') = Inr r \<and> is_valid r)"
proof -
  have m: "py_int_float sample_lib (PStr ''-1'') = Inr (- 1)"
    by (simp add: sample_lib_def)
  have e: "strip (py_str (PStr ''  '')) = []" by (simp add: strip_def is_space_def)
  have s3: "strip (py_str (PStr ''3.0'')) = ''3.0''" by (simp add: strip_def is_space_def)
  have f3: "py_int_float sample_lib (PStr ''3.0'') = Inr 3" by (simp add: sample_lib_def)
  have s42: "strip (py_str (PInt 42)) = ''42''"
    by (simp add: strip_def is_space_def str_nat.simps digit_char_def)
  have sa: "strip (py_str (PStr ''abc'')) = ''abc''" by (simp add: strip_def is_space_def)
  have fa: "py_int_float sample_lib (PStr ''abc'') = Inl ValueError"
    by (simp add: sample_lib_def)
  note t = validate_rev_accepts_iff[of sample_lib]
  have 1: "validate_rev sample_lib (PStr ''-1'') =
     Inr \<lparr>is_valid = False,
          message = ''Ugyldig revisjonsnummer: '' @ apos @ ''-1'' @ apos @
                    '' (forventet: 0, 1, 2, ...)'',
          severity = ''error''\<rparr>"
    using t[of PNone] m by blast
  have 2: "validate_rev sample_lib (PStr ''  '') =
     Inr \<lparr>is_valid = False, message = ''Revisjon mangler'', severity = ''error''\<rparr>"
    using t[of "PStr ''  ''"] e by blast
  have 3: "\<exists>r. validate_rev sample_lib (PStr ''3.0'') = Inr r \<and> is_valid r"
    using t[of "PStr ''3.0''"] f3 unfolding s3 by simp
  have 4: "\<exists>r. validate_rev sample_lib (PInt 42) = Inr r \<and> is_valid r"
    using t[of "PInt 42"] unfolding s42 by (simp add: is_digit_def)
  have 5: "\<not> (\<exists>r. validate_rev sample_lib (PStr ''abc'') = Inr r \<and> is_valid r)"
    using t[of "PStr ''abc''"] fa unfolding sa by (simp add: is_digit_def)
  from m e 1 2 3 4 5 show ?thesis by blast
qed

subsection \<open>The ID validator\<close>

lemma split_on_first: "c \<notin> set xs \<Longrightarrow> split_on c (xs @ c # ys) = xs # split_on c ys"
  by (induction xs) auto

lemma underscore_not_upper: "\<not> is_upper CHR ''_''"
  by (simp add: is_upper_def)

text \<open>For a string the ID pattern matches, \<open>split('_')[0]\<close> is the run of capital letters
  it starts with.\<close>

lemma ID_PATTERN_prefix:
  assumes "ID_PATTERN_match s"
  shows "(case split_on CHR ''_'' s of p # _ \<Rightarrow> p | [] \<Rightarrow> []) = takeWhile is_upper s"
proof -
  from assms have "take 6 (dropWhile is_upper s) = ''_Hull-''"
    by (simp add: ID_PATTERN_match_def Let_def)
  then obtain r where r: "dropWhile is_upper s = CHR ''_'' # r"
    by (cases "dropWhile is_upper s") auto
  have "s = takeWhile is_upper s @ dropWhile is_upper s" by simp
  with r have s: "s = takeWhile is_upper s @ CHR ''_'' # r" by simp
  have "CHR ''_'' \<notin> set (takeWhile is_upper s)"
    using underscore_not_upper by (auto dest: set_takeWhileD)
  from split_on_first[OF this, of r] s show ?thesis by simp
qed

lemma ID_PATTERN_nonempty: "ID_PATTERN_match s \<Longrightarrow> s \<noteq> []"
  by (auto simp: ID_PATTERN_match_def Let_def)

lemma None_no_ID: "\<not> ID_PATTERN_match (strip (py_str PNone))"
  by (simp add: ID_PATTERN_match_def Let_def strip_def is_space_def is_upper_def)

text \<open>
  The copy in \<open>app.py\<close>: a value whose trimmed text matches the pattern, checked against a
  non-empty expected prefix other than its own letters, passes with severity \<open>warning\<close>.
\<close>

lemma app_validate_id_prefix_mismatch:
  assumes "ID_PATTERN_match (strip (py_str v))"
      and "ep \<noteq> []" and "takeWhile is_upper (strip (py_str v)) \<noteq> ep"
  shows "app_validate_id v (Some ep) =
           \<lparr>is_valid = True,
            message = ''ID-prefiks '' @ apos @ takeWhile is_upper (strip (py_str v)) @ apos @
                      '' != '' @ apos @ ep @ apos,
            severity = ''warning''\<rparr>"
proof -
  from assms(1) None_no_ID have "v \<noteq> PNone" by auto
  moreover from assms(1) have "strip (py_str v) \<noteq> []" by (rule ID_PATTERN_nonempty)
  ultimately show ?thesis
    using assms by (simp add: app_validate_id_def Let_def ID_PATTERN_prefix)
qed

text \<open>
  The function of \<open>validation_rules.py\<close> on the same inputs: severity \<open>warning\<close>, but not
  passed.
\<close>

lemma validate_id_prefix_mismatch:
  assumes "ID_PATTERN_match (strip (py_str v))"
      and "ep \<noteq> []" and "takeWhile is_upper (strip (py_str v)) \<noteq> ep"
  shows "validate_id v (Some ep) =
           \<lparr>is_valid = False,
            message = ''ID-prefiks '' @ apos @ takeWhile is_upper (strip (py_str v)) @ apos @
                      '' matcher ikke forventet '' @ apos @ ep @ apos,
            severity = ''warning''\<rparr>"
proof -
  from assms(1) None_no_ID have "v \<noteq> PNone" by auto
  moreover from assms(1) have "strip (py_str v) \<noteq> []" by (rule ID_PATTERN_nonempty)
  ultimately show ?thesis
    using assms by (simp add: validate_id_def Let_def ID_PATTERN_prefix)
qed

text \<open>
  C2. For a value matching the ID pattern and a non-empty expected prefix other than the
  value's letters, the ID validator is to return a passed outcome with severity
  \<open>warning\<close>. At the value \<open>RIV_Hull-12\<close> with expected prefix \<open>RIE\<close> the copy in
  \<open>app.py\<close> does so, and \<open>validate_id\<close> of \<open>validation_rules.py\<close> returns severity
  \<open>warning\<close> with \<open>is_valid = False\<close>.
\<close>

theorem validate_id_mismatch_not_passed:
  "ID_PATTERN_match (strip (py_str (PStr ''RIV_Hull-12''))) \<and>
   validate_id (PStr ''RIV_Hull-12'') (Some ''RIE'') =
     \<lparr>is_valid = False,
      message = ''ID-prefiks '' @ apos @ ''RIV'' @ apos @ '' matcher ikke forventet '' @
                apos @ ''RIE'' @ apos,
      severity = ''warning''\<rparr> \<and>
   app_validate_id (PStr ''RIV_Hull-12'') (Some ''RIE'') =
     \<lparr>is_valid = True,
      message = ''ID-prefiks '' @ apos @ ''RIV'' @ apos @ '' != '' @ apos @ ''RIE'' @ apos,
      severity = ''warning''\<rparr>"
proof -
  have s: "strip (py_str (PStr ''RIV_Hull-12'')) = ''RIV_Hull-12''"
    by (simp add: strip_def is_space_def)
  have m: "ID_PATTERN_match ''RIV_Hull-12''"
    by (simp add: ID_PATTERN_match_def Let_def is_upper_def is_digit_def at_end_def)
  have p: "takeWhile is_upper ''RIV_Hull-12'' = ''RIV''"
    by (simp add: is_upper_def)
  have m': "ID_PATTERN_match (strip (py_str (PStr ''RIV_Hull-12'')))"
    using m by (simp only: s)
  have d: "takeWhile is_upper (strip (py_str (PStr ''RIV_Hull-12''))) \<noteq> ''RIE''"
    by (simp only: s p) simp
  have ne: "''RIE'' \<noteq> []" by simp
  from validate_id_prefix_mismatch[OF m' ne d] app_validate_id_prefix_mismatch[OF m' ne d] m'
  show ?thesis by (simp only: s p)
qed

subsection \<open>The element extractor\<close>

lemma any_A4_Utsp_result:
  "any_A4_Utsp props = Inr b \<Longrightarrow>
     b = (\<exists>p \<in> set props. \<exists>n. prop_Name p = Some n \<and> take 8 n = ''A4_Utsp_'')"
proof (induction props)
  case Nil
  then show ?case by simp
next
  case (Cons p props)
  have len: "length ''A4_Utsp_'' = 8" by simp
  show ?case
  proof (cases "prop_Name p")
    case None
    with Cons.prems show ?thesis by simp
  next
    case (Some n)
    show ?thesis
    proof (cases "take 8 n = ''A4_Utsp_''")
      case True
      with Some Cons.prems have "b = True" by (simp only: any_A4_Utsp.simps startswith_def len) simp
      with True Some show ?thesis by auto
    next
      case False
      with Some Cons.prems have "any_A4_Utsp props = Inr b"
        by (simp only: any_A4_Utsp.simps startswith_def len) simp
      from Cons.IH[OF this] False Some show ?thesis by auto
    qed
  qed
qed

text \<open>What a returning scan has recorded: the names of all property sets, and the located
  name by the precedence of the exact name over the first misplaced set.\<close>

lemma scan_definitions_result:
  "scan_definitions rels (f, p, n) = Inr (f', p', n') \<Longrightarrow>
     n' = n @ map pset_Name (property_sets rels) \<and>
     f' =
       (if \<exists>ps \<in> set (property_sets rels). pset_Name ps = Some REQUIRED_PSET
        then Some REQUIRED_PSET
        else (case f of
                Some x \<Rightarrow> Some x
              | None \<Rightarrow>
                  (case find holds_A4_Utsp (property_sets rels) of
                     None \<Rightarrow> None
                   | Some ps \<Rightarrow> Some (py_format (pset_Name ps) @ '' (feil plassering)''))))"
proof (induction rels arbitrary: f p n)
  case Nil
  then show ?case by (cases f) auto
next
  case (Cons r rest)
  show ?case
  proof (cases r)
    case OtherRel
    with Cons.prems have "scan_definitions rest (f, p, n) = Inr (f', p', n')" by simp
    from Cons.IH[OF this] OtherRel show ?thesis by (cases f) simp_all
  next
    case (IfcRelDefinesByProperties d)
    show ?thesis
    proof (cases d)
      case NoPropertyDefinition
      with IfcRelDefinesByProperties Cons.prems show ?thesis by simp
    next
      case OtherPropertyDefinition
      with IfcRelDefinesByProperties Cons.prems
      have "scan_definitions rest (f, p, n) = Inr (f', p', n')" by simp
      from Cons.IH[OF this] OtherPropertyDefinition IfcRelDefinesByProperties
      show ?thesis by (cases f) simp_all
    next
      case (IfcPropertySet pd)
      have ps: "property_sets (r # rest) = pd # property_sets rest"
        using IfcPropertySet IfcRelDefinesByProperties by simp
      from Cons.prems IfcPropertySet IfcRelDefinesByProperties
      obtain props p1 where hp: "HasProperties pd = Some props"
        and ex: "extract_values props p = Inr p1"
        by (auto simp: Let_def split: sum.splits option.splits if_splits)
      show ?thesis
      proof (cases "pset_Name pd = Some REQUIRED_PSET")
        case True
        with Cons.prems IfcPropertySet IfcRelDefinesByProperties hp ex
        have "scan_definitions rest (Some REQUIRED_PSET, p1, n @ [pset_Name pd]) =
              Inr (f', p', n')"
          by (simp add: Let_def)
        from Cons.IH[OF this] True show ?thesis unfolding ps by simp
      next
        case notreq: False
        from Cons.prems IfcPropertySet IfcRelDefinesByProperties hp notreq
        obtain b where an: "any_A4_Utsp props = Inr b"
          by (auto simp: Let_def split: sum.splits)
        note fz = any_A4_Utsp_result[OF an]
        note c = Cons.prems IfcPropertySet IfcRelDefinesByProperties hp ex notreq an
        show ?thesis
        proof (cases b)
          case True
          with fz hp have here: "holds_A4_Utsp pd"
            by (simp add: holds_A4_Utsp_def)
          show ?thesis
          proof (cases f)
            case None
            with c True
            have "scan_definitions rest
                    (Some (py_format (pset_Name pd) @ '' (feil plassering)''), p1,
                     n @ [pset_Name pd]) = Inr (f', p', n')"
              by (simp add: Let_def)
            from Cons.IH[OF this] None here hp notreq show ?thesis unfolding ps by simp
          next
            case (Some x)
            with c True
            have "scan_definitions rest (Some x, p1, n @ [pset_Name pd]) = Inr (f', p', n')"
              by (simp add: Let_def)
            from Cons.IH[OF this] Some here hp notreq show ?thesis unfolding ps by simp
          qed
        next
          case False
          with fz hp have here: "\<not> holds_A4_Utsp pd"
            by (simp add: holds_A4_Utsp_def)
          from c False
          have "scan_definitions rest (f, p1, n @ [pset_Name pd]) = Inr (f', p', n')"
            by (simp add: Let_def)
          from Cons.IH[OF this] here hp notreq show ?thesis unfolding ps by (cases f) simp_all
        qed
      qed
    qed
  qed
qed

lemma get_element_properties_scan:
  "get_element_properties e = scan_definitions (IsDefinedBy e) (None, Map.empty, [])"
  by (simp add: get_element_properties_def)

text \<open>The extractor returns on every element whose relations have a definition and whose
  property sets have their properties, each with a name.\<close>

lemma any_A4_Utsp_returns:
  "\<forall>q \<in> set props. prop_Name q \<noteq> None \<Longrightarrow> \<exists>b. any_A4_Utsp props = Inr b"
  by (induction props) auto

lemma extract_values_returns:
  "\<forall>q \<in> set props. prop_Name q \<noteq> None \<Longrightarrow> \<exists>p'. extract_values props p = Inr p'"
  by (induction props arbitrary: p) auto

lemma scan_definitions_returns:
  assumes "IfcRelDefinesByProperties NoPropertyDefinition \<notin> set rels"
      and "\<forall>ps \<in> set (property_sets rels).
             \<exists>props. HasProperties ps = Some props \<and> (\<forall>q \<in> set props. prop_Name q \<noteq> None)"
  shows "\<exists>res. scan_definitions rels (f, p, n) = Inr res"
  using assms
proof (induction rels arbitrary: f p n)
  case Nil
  then show ?case by simp
next
  case (Cons r rest)
  show ?case
  proof (cases r)
    case OtherRel
    with Cons show ?thesis by simp
  next
    case (IfcRelDefinesByProperties d)
    show ?thesis
    proof (cases d)
      case NoPropertyDefinition
      with IfcRelDefinesByProperties Cons.prems show ?thesis by simp
    next
      case OtherPropertyDefinition
      with IfcRelDefinesByProperties Cons show ?thesis by simp
    next
      case (IfcPropertySet pd)
      from Cons.prems(2) IfcPropertySet IfcRelDefinesByProperties obtain props where
        hp: "HasProperties pd = Some props" and nm: "\<forall>q \<in> set props. prop_Name q \<noteq> None"
        by auto
      from any_A4_Utsp_returns[OF nm] obtain b where an: "any_A4_Utsp props = Inr b" ..
      from extract_values_returns[OF nm] obtain p1 where ex: "extract_values props p = Inr p1" ..
      have rest1: "IfcRelDefinesByProperties NoPropertyDefinition \<notin> set rest"
        using Cons.prems(1) by simp
      have rest2: "\<forall>ps \<in> set (property_sets rest).
             \<exists>props. HasProperties ps = Some props \<and> (\<forall>q \<in> set props. prop_Name q \<noteq> None)"
        using Cons.prems(2) IfcPropertySet IfcRelDefinesByProperties by simp
      note ih = Cons.IH[OF rest1 rest2]
      show ?thesis
        using IfcPropertySet IfcRelDefinesByProperties hp an ex ih
        by (cases b; cases f) (simp_all add: Let_def)
    qed
  qed
qed

text \<open>On an element with a property whose name is unset the extractor raises, also when
  the set that holds it has the exact name.\<close>

lemma nameless_property_raises: "get_element_properties element_E = Inl AttributeError"
proof -
  have "(case get_element_properties element_E of
           Inl x \<Rightarrow> x = AttributeError | Inr r \<Rightarrow> False)"
    by code_simp
  then show ?thesis by (simp split: sum.splits)
qed



subsection \<open>The element validator\<close>

lemma tally_mono:
  "tally r (e, w) = (e', w') \<Longrightarrow> e \<le> e' \<and> w \<le> w'"
  by (auto simp: tally_def split: if_splits)

lemma validate_required_result:
  "validate_required M props px names (pv, e, w) = Inr (pv', e', w') \<Longrightarrow>
     dom pv' = dom pv \<union> set names \<and> e \<le> e' \<and> w \<le> w'"
proof (induction names arbitrary: pv e w)
  case Nil
  then show ?case by simp
next
  case (Cons a names)
  from Cons.prems obtain r where
    rest: "validate_required M props px names (pv(a \<mapsto> r), tally r (e, w)) = Inr (pv', e', w')"
    by (auto simp: Let_def split: sum.splits)
  obtain e1 w1 where t: "tally r (e, w) = (e1, w1)" by (cases "tally r (e, w)")
  from rest t
  have rest': "validate_required M props px names (pv(a \<mapsto> r), e1, w1) = Inr (pv', e', w')"
    by simp
  have ih: "dom pv' = dom (pv(a \<mapsto> r)) \<union> set names \<and> e1 \<le> e' \<and> w1 \<le> w'"
    by (rule Cons.IH[OF rest'])
  have d: "dom (pv(a \<mapsto> r)) = insert a (dom pv)" by simp
  from ih tally_mono[OF t] show ?case unfolding d by auto
qed

lemma validate_optional_result:
  "validate_optional M props names (pv, e, w) = Inr (pv', e', w') \<Longrightarrow>
     dom pv \<subseteq> dom pv' \<and> e = e' \<and> w \<le> w'"
proof (induction names arbitrary: pv e w)
  case Nil
  then show ?case by simp
next
  case (Cons a names)
  show ?case
  proof (cases "props a")
    case None
    with Cons.prems Cons.IH[of pv e w] show ?thesis by simp
  next
    case (Some v)
    show ?thesis
    proof (cases "mod_PROPERTY_VALIDATORS M a")
      case None
      with Some Cons.prems Cons.IH[of pv e w] show ?thesis by simp
    next
      case validator: (Some f)
      from Cons.prems Some validator obtain r where
        rest: "validate_optional M props names
                 (pv(a \<mapsto> r), e, if severity r = ''warning'' then w + 1 else w) =
               Inr (pv', e', w')"
        by (auto split: sum.splits)
      have ih: "dom (pv(a \<mapsto> r)) \<subseteq> dom pv' \<and> e = e' \<and>
                (if severity r = ''warning'' then w + 1 else w) \<le> w'"
        by (rule Cons.IH[OF rest])
      have d: "dom (pv(a \<mapsto> r)) = insert a (dom pv)" by simp
      from ih show ?thesis unfolding d by (auto split: if_splits)
    qed
  qed
qed

text \<open>The result for an element on which no property set was located.\<close>

lemma validate_element_missing:
  assumes "get_element_properties e = Inr (None, props, names)"
  shows "validate_element M e px =
           Inr \<lparr>guid = GlobalId e,
                element_name =
                  (case elem_Name e of
                     None \<Rightarrow> ''(uten navn)''
                   | Some n \<Rightarrow> if n = [] then ''(uten navn)'' else n),
                element_type = is_a e, object_type = ObjectType e,
                has_pset = False, pset_name_found = None,
                all_psets = names,
                properties_found = Map.empty, property_validations = Map.empty,
                dimension_validation = None, overall_status = ''Mangler pset'',
                error_count = 1, warning_count = 0\<rparr>"
  using assms by (simp add: validate_element_def Let_def)

text \<open>A validated element is one on which the extractor returned.\<close>

lemma validate_element_extracted:
  assumes "validate_element M e px = Inr ev"
  shows "\<exists>found props names. get_element_properties e = Inr (found, props, names)"
  using assms
  by (cases "get_element_properties e") (auto simp: validate_element_def Let_def)

text \<open>The result for an element on which a property set was located.\<close>

lemma validate_element_located:
  assumes loc: "get_element_properties e = Inr (Some nm, props, names)"
      and res: "validate_element M e px = Inr ev"
  shows "pset_name_found ev = Some nm \<and>
         has_pset ev = (nm = REQUIRED_PSET) \<and>
         properties_found ev = props \<and> all_psets ev = names \<and>
         dimension_validation ev = Some (mod_validate_dimensions M (properties_found ev)) \<and>
         set REQUIRED_PROPERTIES \<subseteq> dom (property_validations ev) \<and>
         overall_status ev =
           (if error_count ev > 0 then ''Feil''
            else if warning_count ev > 0 then ''Advarsel'' else ''OK'') \<and>
         0 \<le> error_count ev \<and> 0 \<le> warning_count ev \<and>
         (nm \<noteq> REQUIRED_PSET \<and> nm \<noteq> [] \<longrightarrow> 1 \<le> warning_count ev)"
proof -
  note g = loc
  from res g obtain pv1 e1 w1 pv2 e2 w2 where
    r1: "validate_required M props px REQUIRED_PROPERTIES (Map.empty, 0, 0) = Inr (pv1, e1, w1)"
    and r2: "validate_optional M props OPTIONAL_PROPERTIES (pv1, e1, w1) = Inr (pv2, e2, w2)"
    and ev: "ev = \<lparr>guid = GlobalId e,
                element_name =
                  (case elem_Name e of
                     None \<Rightarrow> ''(uten navn)''
                   | Some n \<Rightarrow> if n = [] then ''(uten navn)'' else n),
                element_type = is_a e, object_type = ObjectType e,
                has_pset = (Some nm = Some REQUIRED_PSET), pset_name_found = Some nm,
                all_psets = names, properties_found = props, property_validations = pv2,
                dimension_validation = Some (mod_validate_dimensions M props),
                overall_status =
                  (if (if \<not> is_valid (mod_validate_dimensions M props) then e2 + 1 else e2) > 0
                   then ''Feil''
                   else if (if Some nm \<noteq> None \<and> Some nm \<noteq> Some [] \<and>
                               Some nm \<noteq> Some REQUIRED_PSET
                            then w2 + 1 else w2) > 0
                   then ''Advarsel'' else ''OK''),
                error_count = (if \<not> is_valid (mod_validate_dimensions M props) then e2 + 1 else e2),
                warning_count = (if Some nm \<noteq> None \<and> Some nm \<noteq> Some [] \<and>
                                    Some nm \<noteq> Some REQUIRED_PSET
                                 then w2 + 1 else w2)\<rparr>"
    by (auto simp: validate_element_def Let_def split: sum.splits prod.splits)
  from validate_required_result[OF r1]
  have d1: "dom pv1 = set REQUIRED_PROPERTIES" and p1: "0 \<le> e1" "0 \<le> w1" by auto
  from validate_optional_result[OF r2]
  have d2: "dom pv1 \<subseteq> dom pv2" and p2: "e1 = e2" "w1 \<le> w2" by auto
  show ?thesis
    unfolding ev using g d1 d2 p1 p2 by auto
qed

text \<open>
  C1. For every element that \<open>validate_element\<close> validates, the status is \<open>Mangler pset\<close>
  exactly when the extractor located no property set at all; otherwise it is \<open>Feil\<close>
  exactly when the error count is positive, else \<open>Advarsel\<close> exactly when the warning
  count is positive, else \<open>OK\<close>. \<open>M\<close> is the module whose validators are called: the
  statement holds for \<open>validate_utsparinger.py\<close> and for \<open>app.py\<close>.
\<close>

theorem validate_element_status:
  assumes "validate_element M e px = Inr ev"
  shows "\<exists>found props names.
           get_element_properties e = Inr (found, props, names) \<and>
           pset_name_found ev = found \<and>
           (overall_status ev = ''Mangler pset'' \<longleftrightarrow> found = None) \<and>
           (found \<noteq> None \<longrightarrow>
              (overall_status ev = ''Feil'' \<longleftrightarrow> error_count ev > 0) \<and>
              (overall_status ev = ''Advarsel'' \<longleftrightarrow>
                 \<not> error_count ev > 0 \<and> warning_count ev > 0) \<and>
              (overall_status ev = ''OK'' \<longleftrightarrow>
                 \<not> error_count ev > 0 \<and> \<not> warning_count ev > 0))"
proof -
  from validate_element_extracted[OF assms] obtain found props names where
    g: "get_element_properties e = Inr (found, props, names)" by blast
  show ?thesis
  proof (cases found)
    case None
    from validate_element_missing[OF g[unfolded None], of M px] assms
    have "overall_status ev = ''Mangler pset''" and "pset_name_found ev = None" by auto
    with None g show ?thesis by simp
  next
    case (Some nm)
    from validate_element_located[OF g[unfolded Some] assms]
    have st: "overall_status ev =
                (if error_count ev > 0 then ''Feil''
                 else if warning_count ev > 0 then ''Advarsel'' else ''OK'')"
      and nf: "pset_name_found ev = Some nm" by auto
    have "(overall_status ev = ''Mangler pset'' \<longleftrightarrow> Some nm = None) \<and>
           (Some nm \<noteq> None \<longrightarrow>
              (overall_status ev = ''Feil'' \<longleftrightarrow> error_count ev > 0) \<and>
              (overall_status ev = ''Advarsel'' \<longleftrightarrow>
                 \<not> error_count ev > 0 \<and> warning_count ev > 0) \<and>
              (overall_status ev = ''OK'' \<longleftrightarrow>
                 \<not> error_count ev > 0 \<and> \<not> warning_count ev > 0))"
      by (subst st, subst st, subst st, subst st) simp
    with g nf Some show ?thesis by blast
  qed
qed

theorem validate_element_status_witness:
  "(\<exists>ev. validate_element (validation_rules sample_lib) element_A (Some ''RIV'') = Inr ev \<and>
         pset_name_found ev = Some ''A4_Utsp'' \<and>
         overall_status ev = ''OK'' \<and> error_count ev = 0 \<and> warning_count ev = 0) \<and>
   (\<exists>ev. validate_element (validation_rules sample_lib) element_B (Some ''RIV'') = Inr ev \<and>
         pset_name_found ev = None \<and>
         overall_status ev = ''Mangler pset'') \<and>
   (\<exists>ev. validate_element (app_rules sample_lib) element_C (Some ''RIE'') = Inr ev \<and>
         pset_name_found ev = Some ''Egenskaper (feil plassering)'' \<and>
         overall_status ev = ''Advarsel'' \<and> error_count ev = 0 \<and> warning_count ev = 2)"
proof -
  have a: "(case validate_element (validation_rules sample_lib) element_A (Some ''RIV'') of
              Inr ev \<Rightarrow> error_count ev = 0 \<and> warning_count ev = 0 \<and>
                        pset_name_found ev = Some ''A4_Utsp''
            | Inl x \<Rightarrow> False)"
    by code_simp
  have b: "(case validate_element (validation_rules sample_lib) element_B (Some ''RIV'') of
              Inr ev \<Rightarrow> pset_name_found ev = None | Inl x \<Rightarrow> False)"
    by code_simp
  have c: "(case validate_element (app_rules sample_lib) element_C (Some ''RIE'') of
              Inr ev \<Rightarrow> error_count ev = 0 \<and> warning_count ev = 2 \<and>
                        pset_name_found ev = Some ''Egenskaper (feil plassering)''
            | Inl x \<Rightarrow> False)"
    by code_simp
  from a obtain eva where
    A: "validate_element (validation_rules sample_lib) element_A (Some ''RIV'') = Inr eva"
       "error_count eva = 0" "warning_count eva = 0" "pset_name_found eva = Some ''A4_Utsp''"
    by (auto split: sum.splits)
  from b obtain evb where
    B: "validate_element (validation_rules sample_lib) element_B (Some ''RIV'') = Inr evb"
       "pset_name_found evb = None"
    by (auto split: sum.splits)
  from c obtain evc where
    C: "validate_element (app_rules sample_lib) element_C (Some ''RIE'') = Inr evc"
       "error_count evc = 0" "warning_count evc = 2"
       "pset_name_found evc = Some ''Egenskaper (feil plassering)''"
    by (auto split: sum.splits)
  from validate_element_status[OF A(1)] A(2,3,4) have 1: "overall_status eva = ''OK''"
    by auto
  from validate_element_status[OF B(1)] B(2) have 2: "overall_status evb = ''Mangler pset''"
    by auto
  from validate_element_status[OF C(1)] C(2,3,4) have 3: "overall_status evc = ''Advarsel''"
    by auto
  from A B C 1 2 3 show ?thesis by blast
qed

text \<open>
  C3. For an element on which the extractor locates no property set,
  \<open>validate_element\<close> returns at once: status \<open>Mangler pset\<close>, one error, no warning, no
  per-property outcome and no dimension outcome. The result is the same for every module
  of validators and every expected prefix, so no validator and no dimension check takes
  part in it.
\<close>

theorem validate_element_no_pset:
  assumes "get_element_properties e = Inr (None, props, names)"
  shows "(\<exists>ev. validate_element M e px = Inr ev \<and>
               overall_status ev = ''Mangler pset'' \<and>
               error_count ev = 1 \<and> warning_count ev = 0 \<and>
               property_validations ev = Map.empty \<and>
               dimension_validation ev = None \<and>
               properties_found ev = Map.empty \<and>
               pset_name_found ev = None \<and> \<not> has_pset ev) \<and>
         validate_element M e px = validate_element M' e px'"
  by (simp add: validate_element_missing[OF assms])

theorem validate_element_no_pset_witness:
  "get_element_properties element_B = Inr (None, Map.empty, []) \<and>
   (\<exists>ev. validate_element (validation_rules sample_lib) element_B (Some ''RIV'') = Inr ev \<and>
         overall_status ev = ''Mangler pset'' \<and> error_count ev = 1 \<and> warning_count ev = 0 \<and>
         property_validations ev = Map.empty \<and> dimension_validation ev = None) \<and>
   validate_element (validation_rules sample_lib) element_B (Some ''RIV'') =
   validate_element
     \<lparr>mod_PROPERTY_VALIDATORS = (\<lambda>k. Some (\<lambda>v. Inl LibraryError)),
      mod_validate_id = app_validate_id,
      mod_validate_dimensions = app_validate_dimensions\<rparr> element_B None"
proof -
  have gb: "get_element_properties element_B = Inr (None, Map.empty, [])"
    by (simp add: get_element_properties_def element_B_def)
  from validate_element_no_pset[OF gb, of "validation_rules sample_lib" "Some ''RIV''"
      "\<lparr>mod_PROPERTY_VALIDATORS = (\<lambda>k. Some (\<lambda>v. Inl LibraryError)),
        mod_validate_id = app_validate_id,
        mod_validate_dimensions = app_validate_dimensions\<rparr>" None] gb
  show ?thesis by blast
qed

subsection \<open>The summary of a file\<close>

lemma count_if_length: "count_if p xs = int (length (filter p xs))"
  by (simp add: count_if_def sum_list_triv)

lemma count_if_Cons: "count_if p (x # xs) = (if p x then 1 else 0) + count_if p xs"
  by (simp add: count_if_def)

lemma count_if_cong: "(\<And>x. x \<in> set xs \<Longrightarrow> p x = q x) \<Longrightarrow> count_if p xs = count_if q xs"
  by (induction xs) (simp_all add: count_if_Cons, simp add: count_if_def)

lemma validate_elements_all2:
  "validate_elements M els px = Inr evs \<Longrightarrow>
     list_all2 (\<lambda>e ev. validate_element M e px = Inr ev) els evs"
proof (induction els arbitrary: evs)
  case Nil
  then show ?case by simp
next
  case (Cons e els)
  then show ?case by (auto split: sum.splits)
qed

lemma validate_elements_each:
  assumes "validate_elements M els px = Inr evs" and "ev \<in> set evs"
  shows "\<exists>e \<in> set els. validate_element M e px = Inr ev"
proof -
  from validate_elements_all2[OF assms(1)]
  have a: "list_all2 (\<lambda>e ev. validate_element M e px = Inr ev) els evs" .
  from assms(2) obtain i where i: "i < length evs" "evs ! i = ev"
    by (auto simp: in_set_conv_nth)
  from a i have "validate_element M (els ! i) px = Inr ev" "i < length els"
    by (auto simp: list_all2_conv_all_nth)
  then show ?thesis by (metis nth_mem)
qed

lemma count_if_all2:
  "list_all2 R xs ys \<Longrightarrow> (\<And>x y. R x y \<Longrightarrow> p x = q y) \<Longrightarrow> count_if p xs = count_if q ys"
proof (induction rule: list_all2_induct)
  case Nil
  then show ?case by (simp add: count_if_def)
next
  case (Cons x xs y ys)
  then show ?case by (simp add: count_if_Cons)
qed

text \<open>\<open>has_pset\<close> of a validated element, read off the extractor's result for it.\<close>

lemma has_pset_extracted:
  assumes g: "get_element_properties e = Inr (found, props, names)"
      and r: "validate_element M e px = Inr ev"
  shows "pset_name_found ev = found \<and> (has_pset ev \<longleftrightarrow> found = Some ''A4_Utsp'')"
proof (cases found)
  case None
  from validate_element_missing[OF g[unfolded None], of M px] r None show ?thesis by auto
next
  case (Some nm)
  from validate_element_located[OF g[unfolded Some] r] Some show ?thesis
    by (simp add: REQUIRED_PSET_def)
qed

lemma has_pset_iff:
  assumes "validate_element M e px = Inr ev"
  shows "has_pset ev \<longleftrightarrow> pset_name_found ev = Some ''A4_Utsp''"
proof -
  from validate_element_extracted[OF assms] obtain found props names where
    g: "get_element_properties e = Inr (found, props, names)" by blast
  from has_pset_extracted[OF g assms] show ?thesis by simp
qed

lemma has_pset_input:
  assumes "validate_element M e px = Inr ev"
  shows "(\<exists>p n. get_element_properties e = Inr (Some ''A4_Utsp'', p, n)) = has_pset ev"
proof -
  from validate_element_extracted[OF assms] obtain found props names where
    g: "get_element_properties e = Inr (found, props, names)" by blast
  from has_pset_extracted[OF g assms] g show ?thesis by auto
qed

text \<open>A located name is never empty: it is \<open>A4_Utsp\<close> or ends in the annotation.\<close>

lemma located_name_nonempty:
  assumes "get_element_properties e = Inr (Some nm, props, names)"
  shows "nm \<noteq> []"
proof -
  have "scan_definitions (IsDefinedBy e) (None, Map.empty, []) = Inr (Some nm, props, names)"
    using assms by (simp add: get_element_properties_scan)
  from scan_definitions_result[OF this] show ?thesis
    by (auto simp: REQUIRED_PSET_def split: if_splits option.splits)
qed

text \<open>The loop over the required properties, property by property: each name gets the
  outcome of its check on the extracted value, and the counts grow by the errors and
  warnings among these outcomes.\<close>

lemma tally_eq:
  "tally r (e, w) =
     (e + (if \<not> is_valid r \<and> severity r = ''error'' then 1 else 0),
      w + (if severity r = ''warning'' then 1 else 0))"
  by (simp add: tally_def)

lemma validate_required_spec:
  assumes "distinct names"
      and "validate_required M props px names (pv, e, w) = Inr (pv', e', w')"
  shows "(\<forall>n \<in> set names. \<exists>r. pv' n = Some r \<and>
            (case mod_PROPERTY_VALIDATORS M n of
               Some f \<Rightarrow>
                 if n = ''A4_Utsp_ID'' then r = mod_validate_id M (dict_get props n) px
                 else f (dict_get props n) = Inr r
             | None \<Rightarrow>
                 r = (if dict_get props n = PNone \<or> strip (py_str (dict_get props n)) = []
                      then \<lparr>is_valid = False, message = ''Mangler verdi'', severity = ''error''\<rparr>
                      else \<lparr>is_valid = True, message = ''OK'', severity = ''error''\<rparr>))) \<and>
         (\<forall>n. n \<notin> set names \<longrightarrow> pv' n = pv n) \<and>
         e' = e + count_if (\<lambda>n. case pv' n of
                                  Some r \<Rightarrow> \<not> is_valid r \<and> severity r = ''error''
                                | None \<Rightarrow> False) names \<and>
         w' = w + count_if (\<lambda>n. case pv' n of
                                  Some r \<Rightarrow> severity r = ''warning''
                                | None \<Rightarrow> False) names"
  using assms
proof (induction names arbitrary: pv e w)
  case Nil
  then show ?case by (simp add: count_if_def)
next
  case (Cons a names)
  from Cons.prems(2) obtain r where
    out: "(case mod_PROPERTY_VALIDATORS M a of
             Some validator \<Rightarrow>
               if a = ''A4_Utsp_ID''
               then Inr (mod_validate_id M (dict_get props a) px)
               else validator (dict_get props a)
           | None \<Rightarrow>
               if dict_get props a = PNone \<or> strip (py_str (dict_get props a)) = []
               then Inr \<lparr>is_valid = False, message = ''Mangler verdi'', severity = ''error''\<rparr>
               else Inr \<lparr>is_valid = True, message = ''OK'', severity = ''error''\<rparr>) = Inr r"
    and rest: "validate_required M props px names (pv(a \<mapsto> r), tally r (e, w)) =
               Inr (pv', e', w')"
    by (auto simp: Let_def split: sum.splits)
  have chk: "(case mod_PROPERTY_VALIDATORS M a of
               Some f \<Rightarrow>
                 if a = ''A4_Utsp_ID'' then r = mod_validate_id M (dict_get props a) px
                 else f (dict_get props a) = Inr r
             | None \<Rightarrow>
                 r = (if dict_get props a = PNone \<or> strip (py_str (dict_get props a)) = []
                      then \<lparr>is_valid = False, message = ''Mangler verdi'', severity = ''error''\<rparr>
                      else \<lparr>is_valid = True, message = ''OK'', severity = ''error''\<rparr>))"
    using out by (auto split: option.splits if_splits)
  from Cons.prems(1) have d: "distinct names" and a: "a \<notin> set names" by auto
  let ?e1 = "e + (if \<not> is_valid r \<and> severity r = ''error'' then 1 else 0)"
  let ?w1 = "w + (if severity r = ''warning'' then 1 else 0)"
  from rest have rest': "validate_required M props px names (pv(a \<mapsto> r), ?e1, ?w1) =
                         Inr (pv', e', w')"
    by (simp only: tally_eq)
  note ih = Cons.IH[OF d rest']
  from ih a have pa: "pv' a = Some r" by simp
  have other: "\<forall>n. n \<notin> set (a # names) \<longrightarrow> pv' n = pv n"
    using ih by auto
  from ih have each: "\<forall>n \<in> set names. \<exists>r. pv' n = Some r \<and>
            (case mod_PROPERTY_VALIDATORS M n of
               Some f \<Rightarrow>
                 if n = ''A4_Utsp_ID'' then r = mod_validate_id M (dict_get props n) px
                 else f (dict_get props n) = Inr r
             | None \<Rightarrow>
                 r = (if dict_get props n = PNone \<or> strip (py_str (dict_get props n)) = []
                      then \<lparr>is_valid = False, message = ''Mangler verdi'', severity = ''error''\<rparr>
                      else \<lparr>is_valid = True, message = ''OK'', severity = ''error''\<rparr>))"
    by blast
  from ih have ce: "e' = ?e1 + count_if (\<lambda>n. case pv' n of
                                  Some r \<Rightarrow> \<not> is_valid r \<and> severity r = ''error''
                                | None \<Rightarrow> False) names"
    and cw: "w' = ?w1 + count_if (\<lambda>n. case pv' n of
                                  Some r \<Rightarrow> severity r = ''warning''
                                | None \<Rightarrow> False) names"
    by blast+
  show ?case
  proof (intro conjI)
    show "\<forall>n \<in> set (a # names). \<exists>r. pv' n = Some r \<and>
            (case mod_PROPERTY_VALIDATORS M n of
               Some f \<Rightarrow>
                 if n = ''A4_Utsp_ID'' then r = mod_validate_id M (dict_get props n) px
                 else f (dict_get props n) = Inr r
             | None \<Rightarrow>
                 r = (if dict_get props n = PNone \<or> strip (py_str (dict_get props n)) = []
                      then \<lparr>is_valid = False, message = ''Mangler verdi'', severity = ''error''\<rparr>
                      else \<lparr>is_valid = True, message = ''OK'', severity = ''error''\<rparr>))"
      using each pa chk by auto
    show "\<forall>n. n \<notin> set (a # names) \<longrightarrow> pv' n = pv n" by (rule other)
    show "e' = e + count_if (\<lambda>n. case pv' n of
                                  Some r \<Rightarrow> \<not> is_valid r \<and> severity r = ''error''
                                | None \<Rightarrow> False) (a # names)"
      using ce pa by (simp add: count_if_Cons)
    show "w' = w + count_if (\<lambda>n. case pv' n of
                                  Some r \<Rightarrow> severity r = ''warning''
                                | None \<Rightarrow> False) (a # names)"
      using cw pa by (simp add: count_if_Cons)
  qed
qed

text \<open>The loop over the optional properties: \<open>A4_Utsp_Funksjon\<close> is checked when the
  extracted mapping has the key, and only a warning is counted.\<close>

lemma validate_optional_spec:
  assumes "validate_optional M props OPTIONAL_PROPERTIES (pv, e, w) = Inr (pv', e', w')"
  shows "e' = e \<and> (\<forall>n. n \<noteq> ''A4_Utsp_Funksjon'' \<longrightarrow> pv' n = pv n) \<and>
         (\<exists>ow. w' = w + ow \<and>
            (case props ''A4_Utsp_Funksjon'' of
               None \<Rightarrow> pv' ''A4_Utsp_Funksjon'' = pv ''A4_Utsp_Funksjon'' \<and> ow = 0
             | Some v \<Rightarrow>
                 (case mod_PROPERTY_VALIDATORS M ''A4_Utsp_Funksjon'' of
                    None \<Rightarrow> pv' ''A4_Utsp_Funksjon'' = pv ''A4_Utsp_Funksjon'' \<and> ow = 0
                  | Some f \<Rightarrow>
                      \<exists>r. f v = Inr r \<and> pv' ''A4_Utsp_Funksjon'' = Some r \<and>
                          ow = (if severity r = ''warning'' then 1 else 0))))"
proof -
  let ?F = "''A4_Utsp_Funksjon''"
  from assms have a: "validate_optional M props [?F] (pv, e, w) = Inr (pv', e', w')"
    by (simp only: OPTIONAL_PROPERTIES_def)
  show ?thesis
  proof (cases "props ?F")
    case None
    with a have "pv' = pv \<and> e' = e \<and> w' = w" by simp
    with None show ?thesis by simp
  next
    case (Some v)
    show ?thesis
    proof (cases "mod_PROPERTY_VALIDATORS M ?F")
      case None
      with a Some have "pv' = pv \<and> e' = e \<and> w' = w" by simp
      with None Some show ?thesis by simp
    next
      case validator: (Some f)
      show ?thesis
      proof (cases "f v")
        case (Inl x)
        with a Some validator show ?thesis by simp
      next
        case (Inr r)
        with a Some validator
        have res: "pv' = pv(?F \<mapsto> r)" "e' = e"
                  "w' = (if severity r = ''warning'' then w + 1 else w)"
          by simp_all
        have w: "w' = w + (if severity r = ''warning'' then 1 else 0)"
          using res(3) by simp
        have p: "pv' ?F = Some r" using res(1) by simp
        have o: "\<forall>n. n \<noteq> ?F \<longrightarrow> pv' n = pv n" using res(1) by simp
        from w p o res(2) Inr show ?thesis
          unfolding Some validator option.case by blast
      qed
    qed
  qed
qed

lemma Funksjon_not_required: "''A4_Utsp_Funksjon'' \<notin> set REQUIRED_PROPERTIES"
  by (simp add: REQUIRED_PROPERTIES_def)

lemma REQUIRED_PROPERTIES_distinct: "distinct REQUIRED_PROPERTIES"
  by (simp add: REQUIRED_PROPERTIES_def)

text \<open>The two loops and the final counts behind the record of a located element.\<close>

lemma validate_element_located_parts:
  assumes g: "get_element_properties e = Inr (Some nm, props, names)"
      and res: "validate_element M e px = Inr ev"
  shows "\<exists>pv1 e1 w1 pv2 e2 w2.
           validate_required M props px REQUIRED_PROPERTIES (Map.empty, 0, 0) =
             Inr (pv1, e1, w1) \<and>
           validate_optional M props OPTIONAL_PROPERTIES (pv1, e1, w1) = Inr (pv2, e2, w2) \<and>
           property_validations ev = pv2 \<and>
           error_count ev =
             e2 + (if is_valid (mod_validate_dimensions M props) then 0 else 1) \<and>
           warning_count ev = w2 + (if nm \<noteq> [] \<and> nm \<noteq> REQUIRED_PSET then 1 else 0)"
proof -
  obtain pv1 e1 w1 where
    r1: "validate_required M props px REQUIRED_PROPERTIES (Map.empty, 0, 0) = Inr (pv1, e1, w1)"
    using res g
    by (cases "validate_required M props px REQUIRED_PROPERTIES (Map.empty, 0, 0)")
       (auto simp: validate_element_def Let_def)
  obtain pv2 e2 w2 where
    r2: "validate_optional M props OPTIONAL_PROPERTIES (pv1, e1, w1) = Inr (pv2, e2, w2)"
    using res g r1
    by (cases "validate_optional M props OPTIONAL_PROPERTIES (pv1, e1, w1)")
       (auto simp: validate_element_def Let_def)
  from res g r1 r2 have
    "property_validations ev = pv2"
    "error_count ev = e2 + (if is_valid (mod_validate_dimensions M props) then 0 else 1)"
    "warning_count ev = w2 + (if nm \<noteq> [] \<and> nm \<noteq> REQUIRED_PSET then 1 else 0)"
    by (auto simp: validate_element_def Let_def)
  with r1 r2 show ?thesis by blast
qed

lemma validate_element_checked:
  assumes g: "get_element_properties e = Inr (Some nm, props, names)"
      and res: "validate_element M e px = Inr ev"
      and mis: "nm \<noteq> ''A4_Utsp''"
  shows "\<forall>n \<in> set REQUIRED_PROPERTIES. \<exists>r. property_validations ev n = Some r \<and>
            (case mod_PROPERTY_VALIDATORS M n of
               Some f \<Rightarrow>
                 if n = ''A4_Utsp_ID'' then r = mod_validate_id M (dict_get props n) px
                 else f (dict_get props n) = Inr r
             | None \<Rightarrow>
                 r = (if dict_get props n = PNone \<or> strip (py_str (dict_get props n)) = []
                      then \<lparr>is_valid = False, message = ''Mangler verdi'', severity = ''error''\<rparr>
                      else \<lparr>is_valid = True, message = ''OK'', severity = ''error''\<rparr>))"
    and "error_count ev =
           count_if (\<lambda>n. case property_validations ev n of
                            Some r \<Rightarrow> \<not> is_valid r \<and> severity r = ''error''
                          | None \<Rightarrow> False) REQUIRED_PROPERTIES +
           (if is_valid (mod_validate_dimensions M props) then 0 else 1)"
    and "\<exists>ow. warning_count ev =
                count_if (\<lambda>n. case property_validations ev n of
                            Some r \<Rightarrow> severity r = ''warning''
                          | None \<Rightarrow> False) REQUIRED_PROPERTIES + ow + 1 \<and>
              (case props ''A4_Utsp_Funksjon'' of
               None \<Rightarrow> property_validations ev ''A4_Utsp_Funksjon'' = None \<and> ow = 0
             | Some v \<Rightarrow>
                 (case mod_PROPERTY_VALIDATORS M ''A4_Utsp_Funksjon'' of
                    None \<Rightarrow> property_validations ev ''A4_Utsp_Funksjon'' = None \<and> ow = 0
                  | Some f \<Rightarrow>
                      \<exists>r. f v = Inr r \<and> property_validations ev ''A4_Utsp_Funksjon'' = Some r \<and>
                          ow = (if severity r = ''warning'' then 1 else 0)))"
proof -
  from validate_element_located_parts[OF g res] obtain pv1 e1 w1 pv2 e2 w2 where
    r1: "validate_required M props px REQUIRED_PROPERTIES (Map.empty, 0, 0) =
           Inr (pv1, e1, w1)"
    and r2: "validate_optional M props OPTIONAL_PROPERTIES (pv1, e1, w1) = Inr (pv2, e2, w2)"
    and pv: "property_validations ev = pv2"
    and ec: "error_count ev =
               e2 + (if is_valid (mod_validate_dimensions M props) then 0 else 1)"
    and wc: "warning_count ev = w2 + (if nm \<noteq> [] \<and> nm \<noteq> REQUIRED_PSET then 1 else 0)"
    by blast
  note s1 = validate_required_spec[OF REQUIRED_PROPERTIES_distinct r1]
  note s2 = validate_optional_spec[OF r2]
  note each1 = s1[THEN conjunct1]
  note other1 = s1[THEN conjunct2, THEN conjunct1]
  note e1 = s1[THEN conjunct2, THEN conjunct2, THEN conjunct1]
  note w1 = s1[THEN conjunct2, THEN conjunct2, THEN conjunct2]
  note e2 = s2[THEN conjunct1]
  note keep = s2[THEN conjunct2, THEN conjunct1]
  note opt = s2[THEN conjunct2, THEN conjunct2]
  have same: "pv2 n = pv1 n" if "n \<in> set REQUIRED_PROPERTIES" for n
  proof -
    from that Funksjon_not_required have "n \<noteq> ''A4_Utsp_Funksjon''" by blast
    with keep show ?thesis by blast
  qed
  have f1: "pv1 ''A4_Utsp_Funksjon'' = None"
    using other1[rule_format, OF Funksjon_not_required] by simp
  show "\<forall>n \<in> set REQUIRED_PROPERTIES. \<exists>r. property_validations ev n = Some r \<and>
            (case mod_PROPERTY_VALIDATORS M n of
               Some f \<Rightarrow>
                 if n = ''A4_Utsp_ID'' then r = mod_validate_id M (dict_get props n) px
                 else f (dict_get props n) = Inr r
             | None \<Rightarrow>
                 r = (if dict_get props n = PNone \<or> strip (py_str (dict_get props n)) = []
                      then \<lparr>is_valid = False, message = ''Mangler verdi'', severity = ''error''\<rparr>
                      else \<lparr>is_valid = True, message = ''OK'', severity = ''error''\<rparr>))"
  proof
    fix n assume n: "n \<in> set REQUIRED_PROPERTIES"
    from each1[rule_format, OF n] obtain r where
      r: "pv1 n = Some r" and c: "(case mod_PROPERTY_VALIDATORS M n of
               Some f \<Rightarrow>
                 if n = ''A4_Utsp_ID'' then r = mod_validate_id M (dict_get props n) px
                 else f (dict_get props n) = Inr r
             | None \<Rightarrow>
                 r = (if dict_get props n = PNone \<or> strip (py_str (dict_get props n)) = []
                      then \<lparr>is_valid = False, message = ''Mangler verdi'', severity = ''error''\<rparr>
                      else \<lparr>is_valid = True, message = ''OK'', severity = ''error''\<rparr>))"
      by (elim exE conjE)
    from r same[OF n] pv have "property_validations ev n = Some r" by simp
    with c show "\<exists>r. property_validations ev n = Some r \<and>
            (case mod_PROPERTY_VALIDATORS M n of
               Some f \<Rightarrow>
                 if n = ''A4_Utsp_ID'' then r = mod_validate_id M (dict_get props n) px
                 else f (dict_get props n) = Inr r
             | None \<Rightarrow>
                 r = (if dict_get props n = PNone \<or> strip (py_str (dict_get props n)) = []
                      then \<lparr>is_valid = False, message = ''Mangler verdi'', severity = ''error''\<rparr>
                      else \<lparr>is_valid = True, message = ''OK'', severity = ''error''\<rparr>))"
      by (intro exI[of _ r] conjI)
  qed
  have ce: "count_if (\<lambda>n. case pv2 n of
                            Some r \<Rightarrow> \<not> is_valid r \<and> severity r = ''error''
                          | None \<Rightarrow> False) REQUIRED_PROPERTIES =
            count_if (\<lambda>n. case pv1 n of
                            Some r \<Rightarrow> \<not> is_valid r \<and> severity r = ''error''
                          | None \<Rightarrow> False) REQUIRED_PROPERTIES"
    by (rule count_if_cong) (simp only: same)
  have cw: "count_if (\<lambda>n. case pv2 n of
                            Some r \<Rightarrow> severity r = ''warning''
                          | None \<Rightarrow> False) REQUIRED_PROPERTIES =
            count_if (\<lambda>n. case pv1 n of
                            Some r \<Rightarrow> severity r = ''warning''
                          | None \<Rightarrow> False) REQUIRED_PROPERTIES"
    by (rule count_if_cong) (simp only: same)
  have e1': "e1 = count_if (\<lambda>n. case pv1 n of
                            Some r \<Rightarrow> \<not> is_valid r \<and> severity r = ''error''
                          | None \<Rightarrow> False) REQUIRED_PROPERTIES"
    using e1 by simp
  have w1': "w1 = count_if (\<lambda>n. case pv1 n of
                            Some r \<Rightarrow> severity r = ''warning''
                          | None \<Rightarrow> False) REQUIRED_PROPERTIES"
    using w1 by simp
  show "error_count ev =
           count_if (\<lambda>n. case property_validations ev n of
                            Some r \<Rightarrow> \<not> is_valid r \<and> severity r = ''error''
                          | None \<Rightarrow> False) REQUIRED_PROPERTIES +
           (if is_valid (mod_validate_dimensions M props) then 0 else 1)"
    by (simp only: pv ce ec e2 e1')
  from mis located_name_nonempty[OF g]
  have loc: "nm \<noteq> [] \<and> nm \<noteq> REQUIRED_PSET" by (simp add: REQUIRED_PSET_def)
  have wc': "warning_count ev = w2 + 1" by (simp only: wc loc simp_thms if_True)
  from opt obtain ow where ow: "w2 = w1 + ow"
    and oc: "(case props ''A4_Utsp_Funksjon'' of
               None \<Rightarrow> pv2 ''A4_Utsp_Funksjon'' = pv1 ''A4_Utsp_Funksjon'' \<and> ow = 0
             | Some v \<Rightarrow>
                 (case mod_PROPERTY_VALIDATORS M ''A4_Utsp_Funksjon'' of
                    None \<Rightarrow> pv2 ''A4_Utsp_Funksjon'' = pv1 ''A4_Utsp_Funksjon'' \<and> ow = 0
                  | Some f \<Rightarrow>
                      \<exists>r. f v = Inr r \<and> pv2 ''A4_Utsp_Funksjon'' = Some r \<and>
                          ow = (if severity r = ''warning'' then 1 else 0)))"
    by (elim exE conjE)
  have a: "warning_count ev =
          count_if (\<lambda>n. case property_validations ev n of
                            Some r \<Rightarrow> severity r = ''warning''
                          | None \<Rightarrow> False) REQUIRED_PROPERTIES + ow + 1"
    by (simp only: pv cw wc' ow w1')
  have b: "(case props ''A4_Utsp_Funksjon'' of
               None \<Rightarrow> property_validations ev ''A4_Utsp_Funksjon'' = None \<and> ow = 0
             | Some v \<Rightarrow>
                 (case mod_PROPERTY_VALIDATORS M ''A4_Utsp_Funksjon'' of
                    None \<Rightarrow> property_validations ev ''A4_Utsp_Funksjon'' = None \<and> ow = 0
                  | Some f \<Rightarrow>
                      \<exists>r. f v = Inr r \<and> property_validations ev ''A4_Utsp_Funksjon'' = Some r \<and>
                          ow = (if severity r = ''warning'' then 1 else 0)))"
    using oc by (simp only: pv f1)
  from a b show "\<exists>ow. warning_count ev =
                count_if (\<lambda>n. case property_validations ev n of
                            Some r \<Rightarrow> severity r = ''warning''
                          | None \<Rightarrow> False) REQUIRED_PROPERTIES + ow + 1 \<and>
              (case props ''A4_Utsp_Funksjon'' of
               None \<Rightarrow> property_validations ev ''A4_Utsp_Funksjon'' = None \<and> ow = 0
             | Some v \<Rightarrow>
                 (case mod_PROPERTY_VALIDATORS M ''A4_Utsp_Funksjon'' of
                    None \<Rightarrow> property_validations ev ''A4_Utsp_Funksjon'' = None \<and> ow = 0
                  | Some f \<Rightarrow>
                      \<exists>r. f v = Inr r \<and> property_validations ev ''A4_Utsp_Funksjon'' = Some r \<and>
                          ow = (if severity r = ''warning'' then 1 else 0)))"
    by (intro exI[of _ ow] conjI)
qed

text \<open>An element whose properties were found in a set of another name carries at least
  the warning for the location, so its status is never \<open>OK\<close>.\<close>

lemma mislocated_status:
  assumes g: "get_element_properties e = Inr (Some nm, props, names)"
      and res: "validate_element M e px = Inr ev"
      and mis: "nm \<noteq> ''A4_Utsp''"
  shows "overall_status ev = (if error_count ev > 0 then ''Feil'' else ''Advarsel'')"
proof -
  note l = validate_element_located[OF g res]
  from mis have "nm \<noteq> REQUIRED_PSET" by (simp add: REQUIRED_PSET_def)
  with l located_name_nonempty[OF g] have "1 \<le> warning_count ev" by blast
  with l show ?thesis by auto
qed

text \<open>
  C10. For a validated element, \<open>pset_name_found\<close> is the name the extractor located and
  \<open>has_pset\<close> is true exactly when that name is \<open>A4_Utsp\<close>. An element whose properties
  were located in a set of another name has \<open>has_pset = False\<close> and is still validated in
  full: every required property carries the outcome of its validator on the extracted
  value, the optional \<open>A4_Utsp_Funksjon\<close> is checked when present, the dimension check has
  run on the extracted values, the counts are the tallies of these outcomes plus one
  warning for the location, and the status is \<open>Feil\<close> or \<open>Advarsel\<close> by the counts (so
  within \<open>OK\<close>, \<open>Advarsel\<close>, \<open>Feil\<close>, never \<open>Mangler pset\<close>). The summary's \<open>has_pset\<close>
  count is the number of model elements whose located name is exactly \<open>A4_Utsp\<close>.
\<close>

theorem has_pset_exact_name_only:
  "(get_element_properties e = Inr (found, props, names) \<and>
    validate_element M e px = Inr ev \<longrightarrow>
      pset_name_found ev = found \<and>
      (has_pset ev \<longleftrightarrow> found = Some ''A4_Utsp'') \<and>
      (has_pset ev \<longleftrightarrow> pset_name_found ev = Some ''A4_Utsp'') \<and>
      (found \<noteq> None \<and> found \<noteq> Some ''A4_Utsp'' \<longrightarrow>
         \<not> has_pset ev \<and>
         properties_found ev = props \<and>
         (\<forall>n \<in> set REQUIRED_PROPERTIES. \<exists>r. property_validations ev n = Some r \<and>
            (case mod_PROPERTY_VALIDATORS M n of
               Some f \<Rightarrow>
                 if n = ''A4_Utsp_ID'' then r = mod_validate_id M (dict_get props n) px
                 else f (dict_get props n) = Inr r
             | None \<Rightarrow>
                 r = (if dict_get props n = PNone \<or> strip (py_str (dict_get props n)) = []
                      then \<lparr>is_valid = False, message = ''Mangler verdi'', severity = ''error''\<rparr>
                      else \<lparr>is_valid = True, message = ''OK'', severity = ''error''\<rparr>))) \<and>
         dimension_validation ev = Some (mod_validate_dimensions M props) \<and>
         error_count ev =
           count_if (\<lambda>n. case property_validations ev n of
                            Some r \<Rightarrow> \<not> is_valid r \<and> severity r = ''error''
                          | None \<Rightarrow> False) REQUIRED_PROPERTIES +
           (if is_valid (mod_validate_dimensions M props) then 0 else 1) \<and>
         (\<exists>ow. warning_count ev =
                count_if (\<lambda>n. case property_validations ev n of
                            Some r \<Rightarrow> severity r = ''warning''
                          | None \<Rightarrow> False) REQUIRED_PROPERTIES + ow + 1 \<and>
              (case props ''A4_Utsp_Funksjon'' of
               None \<Rightarrow> property_validations ev ''A4_Utsp_Funksjon'' = None \<and> ow = 0
             | Some v \<Rightarrow>
                 (case mod_PROPERTY_VALIDATORS M ''A4_Utsp_Funksjon'' of
                    None \<Rightarrow> property_validations ev ''A4_Utsp_Funksjon'' = None \<and> ow = 0
                  | Some f \<Rightarrow>
                      \<exists>r. f v = Inr r \<and> property_validations ev ''A4_Utsp_Funksjon'' = Some r \<and>
                          ow = (if severity r = ''warning'' then 1 else 0)))) \<and>
         overall_status ev = (if error_count ev > 0 then ''Feil'' else ''Advarsel'') \<and>
         overall_status ev \<in> {''OK'', ''Advarsel'', ''Feil''} \<and>
         overall_status ev \<noteq> ''Mangler pset'' \<and>
         set REQUIRED_PROPERTIES \<subseteq> dom (property_validations ev) \<and>
         dimension_validation ev \<noteq> None)) \<and>
   (validate_elements M els px = Inr evs \<longrightarrow>
      sum_has_pset (calculate_summary evs) =
        count_if (\<lambda>e. \<exists>p n. get_element_properties e = Inr (Some ''A4_Utsp'', p, n)) els \<and>
      sum_has_pset (calculate_summary evs) =
        int (length (filter (\<lambda>ev. pset_name_found ev = Some ''A4_Utsp'') evs)))"
proof (intro conjI impI)
  assume a: "get_element_properties e = Inr (found, props, names) \<and>
             validate_element M e px = Inr ev"
  then have g: "get_element_properties e = Inr (found, props, names)"
    and r: "validate_element M e px = Inr ev" by blast+
  note h = has_pset_extracted[OF g r]
  from h show "pset_name_found ev = found" by blast
  from h show "has_pset ev \<longleftrightarrow> found = Some ''A4_Utsp''" by blast
  from h show "has_pset ev \<longleftrightarrow> pset_name_found ev = Some ''A4_Utsp''" by simp
  assume m: "found \<noteq> None \<and> found \<noteq> Some ''A4_Utsp''"
  then obtain nm where nm: "found = Some nm" and mis: "nm \<noteq> ''A4_Utsp''" by auto
  note g' = g[unfolded nm]
  note l = validate_element_located[OF g' r]
  note c = validate_element_checked[OF g' r mis]
  note st = mislocated_status[OF g' r mis]
  from h m show "\<not> has_pset ev" by blast
  from l show "properties_found ev = props" by blast
  show "\<forall>n \<in> set REQUIRED_PROPERTIES. \<exists>r. property_validations ev n = Some r \<and>
            (case mod_PROPERTY_VALIDATORS M n of
               Some f \<Rightarrow>
                 if n = ''A4_Utsp_ID'' then r = mod_validate_id M (dict_get props n) px
                 else f (dict_get props n) = Inr r
             | None \<Rightarrow>
                 r = (if dict_get props n = PNone \<or> strip (py_str (dict_get props n)) = []
                      then \<lparr>is_valid = False, message = ''Mangler verdi'', severity = ''error''\<rparr>
                      else \<lparr>is_valid = True, message = ''OK'', severity = ''error''\<rparr>))"
    by (rule c(1))
  from l show "dimension_validation ev = Some (mod_validate_dimensions M props)" by simp
  show "error_count ev =
           count_if (\<lambda>n. case property_validations ev n of
                            Some r \<Rightarrow> \<not> is_valid r \<and> severity r = ''error''
                          | None \<Rightarrow> False) REQUIRED_PROPERTIES +
           (if is_valid (mod_validate_dimensions M props) then 0 else 1)"
    by (rule c(2))
  show "\<exists>ow. warning_count ev =
                count_if (\<lambda>n. case property_validations ev n of
                            Some r \<Rightarrow> severity r = ''warning''
                          | None \<Rightarrow> False) REQUIRED_PROPERTIES + ow + 1 \<and>
              (case props ''A4_Utsp_Funksjon'' of
               None \<Rightarrow> property_validations ev ''A4_Utsp_Funksjon'' = None \<and> ow = 0
             | Some v \<Rightarrow>
                 (case mod_PROPERTY_VALIDATORS M ''A4_Utsp_Funksjon'' of
                    None \<Rightarrow> property_validations ev ''A4_Utsp_Funksjon'' = None \<and> ow = 0
                  | Some f \<Rightarrow>
                      \<exists>r. f v = Inr r \<and> property_validations ev ''A4_Utsp_Funksjon'' = Some r \<and>
                          ow = (if severity r = ''warning'' then 1 else 0)))"
    by (rule c(3))
  show "overall_status ev = (if error_count ev > 0 then ''Feil'' else ''Advarsel'')"
    by (rule st)
  show "overall_status ev \<in> {''OK'', ''Advarsel'', ''Feil''}"
    by (subst st) simp
  show "overall_status ev \<noteq> ''Mangler pset''"
    by (subst st) simp
  from l show "set REQUIRED_PROPERTIES \<subseteq> dom (property_validations ev)" by blast
  from l show "dimension_validation ev \<noteq> None" by simp
next
  assume r: "validate_elements M els px = Inr evs"
  from validate_elements_all2[OF r]
  have a2: "list_all2 (\<lambda>e ev. validate_element M e px = Inr ev) els evs" .
  have "count_if (\<lambda>e. \<exists>p n. get_element_properties e = Inr (Some ''A4_Utsp'', p, n)) els =
        count_if has_pset evs"
    by (rule count_if_all2[OF a2]) (rule has_pset_input)
  then show "sum_has_pset (calculate_summary evs) =
        count_if (\<lambda>e. \<exists>p n. get_element_properties e = Inr (Some ''A4_Utsp'', p, n)) els"
    by (simp add: calculate_summary_def)
  have "filter has_pset evs = filter (\<lambda>ev. pset_name_found ev = Some ''A4_Utsp'') evs"
  proof (rule filter_cong[OF refl])
    fix ev assume "ev \<in> set evs"
    from validate_elements_each[OF r this] obtain e where
      "validate_element M e px = Inr ev" by blast
    from has_pset_iff[OF this]
    show "has_pset ev = (pset_name_found ev = Some ''A4_Utsp'')" .
  qed
  then show "sum_has_pset (calculate_summary evs) =
        int (length (filter (\<lambda>ev. pset_name_found ev = Some ''A4_Utsp'') evs))"
    by (simp add: calculate_summary_def count_if_length)
qed

theorem has_pset_exact_name_only_witness:
  "(\<exists>found props names ev.
      get_element_properties element_C = Inr (found, props, names) \<and>
      validate_element (validation_rules sample_lib) element_C (Some ''RIV'') = Inr ev \<and>
      found = Some ''Egenskaper (feil plassering)'' \<and>
      pset_name_found ev = found \<and> \<not> has_pset ev \<and> properties_found ev = props \<and>
      error_count ev = 0 \<and> overall_status ev = ''Advarsel'' \<and>
      dimension_validation ev = Some (validate_dimensions props)) \<and>
   (\<exists>evs. validate_elements (validation_rules sample_lib) [element_A, element_B, element_C]
            (Some ''RIV'') = Inr evs \<and>
          sum_has_pset (calculate_summary evs) = 1)"
proof -
  have "(case get_element_properties element_C of
           Inr (f, p, n) \<Rightarrow> f = Some ''Egenskaper (feil plassering)'' | Inl x \<Rightarrow> False)"
    by code_simp
  then obtain props names where
    G: "get_element_properties element_C =
          Inr (Some ''Egenskaper (feil plassering)'', props, names)"
    by (auto split: sum.splits)
  have "(case validate_element (validation_rules sample_lib) element_C (Some ''RIV'') of
           Inr ev \<Rightarrow> error_count ev = 0 | Inl x \<Rightarrow> False)"
    by code_simp
  then obtain evc where
    C: "validate_element (validation_rules sample_lib) element_C (Some ''RIV'') = Inr evc"
       "error_count evc = 0"
    by (auto split: sum.splits)
  have s: "(case validate_elements (validation_rules sample_lib)
                   [element_A, element_B, element_C] (Some ''RIV'') of
              Inr evs \<Rightarrow> map pset_name_found evs =
                 [Some ''A4_Utsp'', None, Some ''Egenskaper (feil plassering)'']
            | Inl x \<Rightarrow> False)"
    by code_simp
  then obtain evs where
    S: "validate_elements (validation_rules sample_lib) [element_A, element_B, element_C]
          (Some ''RIV'') = Inr evs"
       "map pset_name_found evs = [Some ''A4_Utsp'', None, Some ''Egenskaper (feil plassering)'']"
    by (auto split: sum.splits)
  have len: "length (filter (\<lambda>ev. pset_name_found ev = Some ''A4_Utsp'') evs) =
             length (filter (\<lambda>n. n = Some ''A4_Utsp'') (map pset_name_found evs))"
    by (simp add: filter_map comp_def)
  have hyp: "Some ''Egenskaper (feil plassering)'' \<noteq> None \<and>
             Some ''Egenskaper (feil plassering)'' \<noteq> Some ''A4_Utsp''"
    by simp
  note t = has_pset_exact_name_only[of element_C "Some ''Egenskaper (feil plassering)''"
      props names "validation_rules sample_lib" "Some ''RIV''" evc
      "[element_A, element_B, element_C]" evs]
  note t1 = t[THEN conjunct1, rule_format, OF conjI[OF G C(1)]]
  note t2 = t[THEN conjunct2, rule_format, OF S(1)]
  note m = t1[THEN conjunct2, THEN conjunct2, THEN conjunct2, rule_format, OF hyp]
  from t1 have 1: "pset_name_found evc = Some ''Egenskaper (feil plassering)''" by blast
  from m have 2: "\<not> has_pset evc" by blast
  from m have 3: "properties_found evc = props" by blast
  from m have "overall_status evc = (if error_count evc > 0 then ''Feil'' else ''Advarsel'')"
    by blast
  with C(2) have 4: "overall_status evc = ''Advarsel''" by simp
  from m have "dimension_validation evc =
                 Some (mod_validate_dimensions (validation_rules sample_lib) props)"
    by blast
  then have 5: "dimension_validation evc = Some (validate_dimensions props)"
    by (simp add: validation_rules_def)
  from t2 have "sum_has_pset (calculate_summary evs) =
      int (length (filter (\<lambda>ev. pset_name_found ev = Some ''A4_Utsp'') evs))" by blast
  then have 6: "sum_has_pset (calculate_summary evs) = 1"
    unfolding len S(2) by simp
  from G C S(1) 1 2 3 4 5 6 show ?thesis by blast
qed

lemma validate_element_four:
  assumes "validate_element M e px = Inr ev"
  shows "overall_status ev \<in> {''OK'', ''Feil'', ''Advarsel'', ''Mangler pset''}"
proof -
  from validate_element_extracted[OF assms] obtain found props names where
    g: "get_element_properties e = Inr (found, props, names)" by blast
  show ?thesis
  proof (cases found)
    case None
    from validate_element_missing[OF g[unfolded None], of M px] assms show ?thesis by auto
  next
    case (Some nm)
    from validate_element_located[OF g[unfolded Some] assms] show ?thesis by auto
  qed
qed

lemma partition_counts:
  "list_all (\<lambda>ev. overall_status ev \<in> {''OK'', ''Feil'', ''Advarsel'', ''Mangler pset''}) evs \<Longrightarrow>
     count_if (\<lambda>e. overall_status e = ''OK'') evs +
     count_if (\<lambda>e. overall_status e = ''Feil'') evs +
     count_if (\<lambda>e. overall_status e = ''Advarsel'') evs +
     count_if (\<lambda>e. overall_status e = ''Mangler pset'') evs = int (length evs)"
proof (induction evs)
  case Nil
  then show ?case by (simp add: count_if_def)
next
  case (Cons ev evs)
  from Cons.prems have
    st: "overall_status ev = ''OK'' \<or> overall_status ev = ''Feil'' \<or>
         overall_status ev = ''Advarsel'' \<or> overall_status ev = ''Mangler pset''"
    and rest: "list_all (\<lambda>ev. overall_status ev \<in> {''OK'', ''Feil'', ''Advarsel'', ''Mangler pset''}) evs"
    by auto
  from Cons.IH[OF rest] st show ?case
    by (auto simp: count_if_def)
qed

lemma validate_elements_partition:
  assumes "validate_elements M els px = Inr evs"
  shows "sum_ok (calculate_summary evs) + sum_feil (calculate_summary evs) +
         sum_advarsel (calculate_summary evs) + sum_mangler_pset (calculate_summary evs) =
         sum_total (calculate_summary evs) \<and>
         sum_total (calculate_summary evs) = int (length els)"
proof -
  have "list_all (\<lambda>ev. overall_status ev \<in> {''OK'', ''Feil'', ''Advarsel'', ''Mangler pset''}) evs"
    unfolding list_all_iff
  proof
    fix ev assume "ev \<in> set evs"
    from validate_elements_each[OF assms this] obtain e where
      "validate_element M e px = Inr ev" by blast
    then show "overall_status ev \<in> {''OK'', ''Feil'', ''Advarsel'', ''Mangler pset''}"
      by (rule validate_element_four)
  qed
  from partition_counts[OF this]
  have p: "count_if (\<lambda>e. overall_status e = ''OK'') evs +
     count_if (\<lambda>e. overall_status e = ''Feil'') evs +
     count_if (\<lambda>e. overall_status e = ''Advarsel'') evs +
     count_if (\<lambda>e. overall_status e = ''Mangler pset'') evs = int (length evs)" .
  from validate_elements_all2[OF assms] have "length els = length evs"
    by (rule list_all2_lengthD)
  with p show ?thesis by (simp add: calculate_summary_def)
qed

text \<open>
  C5. For every run of \<open>validate_ifc_file\<close> that returns a result, in
  \<open>validate_utsparinger.py\<close> and in \<open>app.py\<close>, the four status counts of the summary add up
  to the total, which is the number of elements of the model.
\<close>

theorem summary_counts_partition:
  "(validate_ifc_file L ifc_open path = Inr fv \<longrightarrow>
      sum_ok (file_summary fv) + sum_feil (file_summary fv) +
      sum_advarsel (file_summary fv) + sum_mangler_pset (file_summary fv) =
      sum_total (file_summary fv) \<and>
      sum_total (file_summary fv) = int (length (elements fv)) \<and>
      sum_total (file_summary fv) = total_elements fv) \<and>
   (snd (app_validate_ifc_file L app_open fs tmp_path file_content name) = Inr afv \<longrightarrow>
      sum_ok (app_summary afv) + sum_feil (app_summary afv) +
      sum_advarsel (app_summary afv) + sum_mangler_pset (app_summary afv) =
      sum_total (app_summary afv) \<and>
      sum_total (app_summary afv) = int (length (app_elements afv)) \<and>
      sum_total (app_summary afv) = app_total_elements afv)"
proof (intro conjI impI)
  assume r: "validate_ifc_file L ifc_open path = Inr fv"
  then obtain els evs where
    v: "validate_elements (validation_rules L) els
          (extract_file_prefix L (py_path_name L path)) = Inr evs"
    and fv: "file_summary fv = calculate_summary evs" "elements fv = evs"
            "total_elements fv = int (length els)"
    by (auto simp: validate_ifc_file_def Let_def split: sum.splits)
  note p = validate_elements_partition[OF v]
  from validate_elements_all2[OF v] have len: "length els = length evs"
    by (rule list_all2_lengthD)
  show "sum_ok (file_summary fv) + sum_feil (file_summary fv) +
      sum_advarsel (file_summary fv) + sum_mangler_pset (file_summary fv) =
      sum_total (file_summary fv)" using p by (simp only: fv)
  show "sum_total (file_summary fv) = int (length (elements fv))"
    using p len by (simp only: fv)
  show "sum_total (file_summary fv) = total_elements fv" using p by (simp only: fv)
next
  assume r: "snd (app_validate_ifc_file L app_open fs tmp_path file_content name) = Inr afv"
  then obtain els evs where
    v: "validate_elements (app_rules L) els (app_extract_file_prefix L name) = Inr evs"
    and fv: "app_summary afv = calculate_summary evs" "app_elements afv = evs"
            "app_total_elements afv = int (length els)"
    by (auto simp: app_validate_ifc_file_def Let_def unlink_def split: sum.splits if_splits)
  note p = validate_elements_partition[OF v]
  from validate_elements_all2[OF v] have len: "length els = length evs"
    by (rule list_all2_lengthD)
  show "sum_ok (app_summary afv) + sum_feil (app_summary afv) +
      sum_advarsel (app_summary afv) + sum_mangler_pset (app_summary afv) =
      sum_total (app_summary afv)" using p by (simp only: fv)
  show "sum_total (app_summary afv) = int (length (app_elements afv))"
    using p len by (simp only: fv)
  show "sum_total (app_summary afv) = app_total_elements afv" using p by (simp only: fv)
qed

theorem summary_counts_partition_witness:
  "(\<exists>fv. validate_ifc_file sample_lib (\<lambda>p. Inr [element_A, element_B, element_C])
            ''A4_RIV_Utsparinger.ifc'' = Inr fv \<and>
          sum_ok (file_summary fv) = 1 \<and> sum_feil (file_summary fv) = 0 \<and>
          sum_advarsel (file_summary fv) = 1 \<and> sum_mangler_pset (file_summary fv) = 1 \<and>
          sum_total (file_summary fv) = 3) \<and>
   (\<exists>afv. snd (app_validate_ifc_file sample_lib (\<lambda>fs p. Inr [element_A, element_B])
                 Map.empty ''/tmp/tmpab12.ifc'' ''ISO-10303-21;'' ''A4_RIV_Utsparinger.ifc'') =
             Inr afv \<and>
           sum_ok (app_summary afv) + sum_feil (app_summary afv) +
           sum_advarsel (app_summary afv) + sum_mangler_pset (app_summary afv) = 2)"
proof -
  have a: "(case validate_ifc_file sample_lib (\<lambda>p. Inr [element_A, element_B, element_C])
                   ''A4_RIV_Utsparinger.ifc'' of
              Inr fv \<Rightarrow> sum_ok (file_summary fv) = 1 \<and> sum_feil (file_summary fv) = 0 \<and>
                        sum_advarsel (file_summary fv) = 1 \<and> total_elements fv = 3
            | Inl x \<Rightarrow> False)"
    by code_simp
  then obtain fv where
    A: "validate_ifc_file sample_lib (\<lambda>p. Inr [element_A, element_B, element_C])
          ''A4_RIV_Utsparinger.ifc'' = Inr fv"
       "sum_ok (file_summary fv) = 1" "sum_feil (file_summary fv) = 0"
       "sum_advarsel (file_summary fv) = 1" "total_elements fv = 3"
    by (auto split: sum.splits)
  have b: "(case snd (app_validate_ifc_file sample_lib (\<lambda>fs p. Inr [element_A, element_B])
                 Map.empty ''/tmp/tmpab12.ifc'' ''ISO-10303-21;'' ''A4_RIV_Utsparinger.ifc'') of
              Inr afv \<Rightarrow> app_total_elements afv = 2
            | Inl x \<Rightarrow> False)"
    by code_simp
  then obtain afv where
    B: "snd (app_validate_ifc_file sample_lib (\<lambda>fs p. Inr [element_A, element_B])
                 Map.empty ''/tmp/tmpab12.ifc'' ''ISO-10303-21;'' ''A4_RIV_Utsparinger.ifc'') =
        Inr afv"
       "app_total_elements afv = 2"
    by (auto split: sum.splits)
  note t = summary_counts_partition[of sample_lib "\<lambda>p. Inr [element_A, element_B, element_C]"
      "''A4_RIV_Utsparinger.ifc''" fv "\<lambda>fs p. Inr [element_A, element_B]" Map.empty
      "''/tmp/tmpab12.ifc''" "''ISO-10303-21;''" "''A4_RIV_Utsparinger.ifc''" afv]
  from t A have 1: "sum_mangler_pset (file_summary fv) = 1 \<and> sum_total (file_summary fv) = 3"
    by simp
  from t B have 2: "sum_ok (app_summary afv) + sum_feil (app_summary afv) +
           sum_advarsel (app_summary afv) + sum_mangler_pset (app_summary afv) = 2"
    by simp
  from A B 1 2 show ?thesis by blast
qed

subsection \<open>The temporary copy of an upload\<close>

lemma unlink_written: "unlink (fs(p \<mapsto> c)) p = Inr (fs(p := None))"
  by (simp add: unlink_def)

lemma app_validate_ifc_file_fs:
  "fst (app_validate_ifc_file L ifc_open fs tmp_path file_content name) =
     (case snd (app_validate_ifc_file L ifc_open fs tmp_path file_content name) of
        Inr r \<Rightarrow> fs(tmp_path := None)
      | Inl x \<Rightarrow> fs(tmp_path \<mapsto> file_content))"
  by (simp add: app_validate_ifc_file_def Let_def unlink_written split: sum.splits)

lemma create_validated_ifc_open_fails:
  "ifc_open (fs(tmp_path \<mapsto> file_content)) tmp_path = Inl x \<Longrightarrow>
     create_validated_ifc ifc_open annotate fs tmp_path file_content name validation =
       (fs(tmp_path \<mapsto> file_content), Inl x)"
  by (simp add: create_validated_ifc_def Let_def)

lemma create_validated_ifc_annotate_fails:
  "ifc_open (fs(tmp_path \<mapsto> file_content)) tmp_path = Inr m \<Longrightarrow>
   annotate m validation = Inl x \<Longrightarrow>
     create_validated_ifc ifc_open annotate fs tmp_path file_content name validation =
       (fs(tmp_path \<mapsto> file_content), Inl x)"
  by (simp add: create_validated_ifc_def Let_def)

lemma create_validated_ifc_success:
  assumes "snd (create_validated_ifc ifc_open annotate fs tmp_path file_content name validation) =
             Inr written"
  shows "fst (create_validated_ifc ifc_open annotate fs tmp_path file_content name validation)
           tmp_path = None"
  using assms
  by (auto simp: create_validated_ifc_def Let_def unlink_def split: sum.splits if_splits)

text \<open>
  C9, as stated: the temporary copy is removed on every exit path, also when loading,
  validation or export raises. The functions of \<open>app.py\<close> remove it only in their last
  statements. Here the library fails to open the copy, then validation raises on the
  revision text \<open>inf\<close>, then the export fails: each time the exception leaves the function
  and the copy is still in the file system.
\<close>

theorem temp_copy_left_behind:
  "app_validate_ifc_file sample_lib (\<lambda>fs p. Inl LibraryError) Map.empty
     ''/tmp/tmpab12.ifc'' ''not a model'' ''A4_RIV_Utsparinger.ifc'' =
     ([''/tmp/tmpab12.ifc'' \<mapsto> ''not a model''], Inl LibraryError) \<and>
   app_validate_ifc_file sample_lib (\<lambda>fs p. Inr [element_D]) Map.empty
     ''/tmp/tmpab12.ifc'' ''ISO-10303-21;'' ''A4_RIV_Utsparinger.ifc'' =
     ([''/tmp/tmpab12.ifc'' \<mapsto> ''ISO-10303-21;''], Inl OverflowError) \<and>
   create_validated_ifc (\<lambda>fs p. Inr ()) (\<lambda>m v. Inl LibraryError) Map.empty
     ''/tmp/tmpab12.ifc'' ''ISO-10303-21;'' ''A4_RIV_Utsparinger.ifc''
     \<lparr>app_filename = ''A4_RIV_Utsparinger.ifc'', app_total_elements = 0,
      app_elements = [], app_summary = calculate_summary []\<rparr> =
     ([''/tmp/tmpab12.ifc'' \<mapsto> ''ISO-10303-21;''], Inl LibraryError)"
proof (intro conjI)
  show "app_validate_ifc_file sample_lib (\<lambda>fs p. Inl LibraryError) Map.empty
     ''/tmp/tmpab12.ifc'' ''not a model'' ''A4_RIV_Utsparinger.ifc'' =
     ([''/tmp/tmpab12.ifc'' \<mapsto> ''not a model''], Inl LibraryError)"
    by (simp add: app_validate_ifc_file_def Let_def)
next
  have "(case validate_elements (app_rules sample_lib) [element_D]
                (app_extract_file_prefix sample_lib ''A4_RIV_Utsparinger.ifc'') of
           Inl x \<Rightarrow> x = OverflowError | Inr r \<Rightarrow> False)"
    by code_simp
  then have v: "validate_elements (app_rules sample_lib) [element_D]
             (app_extract_file_prefix sample_lib ''A4_RIV_Utsparinger.ifc'') =
           Inl OverflowError"
    by (simp split: sum.splits)
  show "app_validate_ifc_file sample_lib (\<lambda>fs p. Inr [element_D]) Map.empty
     ''/tmp/tmpab12.ifc'' ''ISO-10303-21;'' ''A4_RIV_Utsparinger.ifc'' =
     ([''/tmp/tmpab12.ifc'' \<mapsto> ''ISO-10303-21;''], Inl OverflowError)"
    unfolding app_validate_ifc_file_def Let_def by (simp only: v sum.case)
next
  show "create_validated_ifc (\<lambda>fs p. Inr ()) (\<lambda>m v. Inl LibraryError) Map.empty
     ''/tmp/tmpab12.ifc'' ''ISO-10303-21;'' ''A4_RIV_Utsparinger.ifc''
     \<lparr>app_filename = ''A4_RIV_Utsparinger.ifc'', app_total_elements = 0,
      app_elements = [], app_summary = calculate_summary []\<rparr> =
     ([''/tmp/tmpab12.ifc'' \<mapsto> ''ISO-10303-21;''], Inl LibraryError)"
    by (simp add: create_validated_ifc_def Let_def)
qed

text \<open>
  C9, amended: the temporary copy is removed when the function returns its result. When
  opening the copy, validating the elements, or annotating and writing the model raises,
  the exception leaves the function and the copy stays in the file system.
\<close>

theorem temp_copy_removed_on_return:
  "(snd (app_validate_ifc_file L ifc_open fs tmp_path file_content name) = Inr afv \<longrightarrow>
      fst (app_validate_ifc_file L ifc_open fs tmp_path file_content name) =
        fs(tmp_path := None)) \<and>
   (snd (app_validate_ifc_file L ifc_open fs tmp_path file_content name) = Inl x \<longrightarrow>
      fst (app_validate_ifc_file L ifc_open fs tmp_path file_content name) =
        fs(tmp_path \<mapsto> file_content)) \<and>
   (snd (create_validated_ifc model_open annotate fs tmp_path file_content name validation) =
      Inr written \<longrightarrow>
      fst (create_validated_ifc model_open annotate fs tmp_path file_content name validation)
        tmp_path = None) \<and>
   (model_open (fs(tmp_path \<mapsto> file_content)) tmp_path = Inl x \<longrightarrow>
      create_validated_ifc model_open annotate fs tmp_path file_content name validation =
        (fs(tmp_path \<mapsto> file_content), Inl x)) \<and>
   (model_open (fs(tmp_path \<mapsto> file_content)) tmp_path = Inr m \<and>
    annotate m validation = Inl x \<longrightarrow>
      create_validated_ifc model_open annotate fs tmp_path file_content name validation =
        (fs(tmp_path \<mapsto> file_content), Inl x))"
proof (intro conjI impI)
  assume "snd (app_validate_ifc_file L ifc_open fs tmp_path file_content name) = Inr afv"
  then show "fst (app_validate_ifc_file L ifc_open fs tmp_path file_content name) =
        fs(tmp_path := None)"
    by (simp add: app_validate_ifc_file_fs)
next
  assume "snd (app_validate_ifc_file L ifc_open fs tmp_path file_content name) = Inl x"
  then show "fst (app_validate_ifc_file L ifc_open fs tmp_path file_content name) =
        fs(tmp_path \<mapsto> file_content)"
    by (simp add: app_validate_ifc_file_fs)
next
  assume "snd (create_validated_ifc model_open annotate fs tmp_path file_content name validation) =
      Inr written"
  then show "fst (create_validated_ifc model_open annotate fs tmp_path file_content name
                validation) tmp_path = None"
    by (rule create_validated_ifc_success)
next
  assume "model_open (fs(tmp_path \<mapsto> file_content)) tmp_path = Inl x"
  then show "create_validated_ifc model_open annotate fs tmp_path file_content name validation =
        (fs(tmp_path \<mapsto> file_content), Inl x)"
    by (rule create_validated_ifc_open_fails)
next
  assume "model_open (fs(tmp_path \<mapsto> file_content)) tmp_path = Inr m \<and>
    annotate m validation = Inl x"
  then show "create_validated_ifc model_open annotate fs tmp_path file_content name validation =
        (fs(tmp_path \<mapsto> file_content), Inl x)"
    by (auto intro: create_validated_ifc_annotate_fails)
qed

theorem temp_copy_removed_on_return_witness:
  "(\<exists>afv. snd (app_validate_ifc_file sample_lib (\<lambda>fs p. Inr [element_A, element_B])
                 Map.empty ''/tmp/tmpab12.ifc'' ''ISO-10303-21;'' ''A4_RIV_Utsparinger.ifc'') =
             Inr afv) \<and>
   fst (app_validate_ifc_file sample_lib (\<lambda>fs p. Inr [element_A, element_B])
          Map.empty ''/tmp/tmpab12.ifc'' ''ISO-10303-21;'' ''A4_RIV_Utsparinger.ifc'')
     ''/tmp/tmpab12.ifc'' = None \<and>
   snd (app_validate_ifc_file sample_lib (\<lambda>fs p. Inl LibraryError)
          Map.empty ''/tmp/tmpab12.ifc'' ''not a model'' ''A4_RIV_Utsparinger.ifc'') =
     Inl LibraryError \<and>
   fst (app_validate_ifc_file sample_lib (\<lambda>fs p. Inl LibraryError)
          Map.empty ''/tmp/tmpab12.ifc'' ''not a model'' ''A4_RIV_Utsparinger.ifc'')
     ''/tmp/tmpab12.ifc'' = Some ''not a model''"
proof -
  have b: "(case snd (app_validate_ifc_file sample_lib (\<lambda>fs p. Inr [element_A, element_B])
                 Map.empty ''/tmp/tmpab12.ifc'' ''ISO-10303-21;'' ''A4_RIV_Utsparinger.ifc'') of
              Inr afv \<Rightarrow> True | Inl x \<Rightarrow> False)"
    by code_simp
  then obtain afv where
    B: "snd (app_validate_ifc_file sample_lib (\<lambda>fs p. Inr [element_A, element_B])
                 Map.empty ''/tmp/tmpab12.ifc'' ''ISO-10303-21;'' ''A4_RIV_Utsparinger.ifc'') =
        Inr afv"
    by (auto split: sum.splits)
  have c: "snd (app_validate_ifc_file sample_lib (\<lambda>fs p. Inl LibraryError)
          Map.empty ''/tmp/tmpab12.ifc'' ''not a model'' ''A4_RIV_Utsparinger.ifc'') =
     Inl LibraryError"
    by (simp add: app_validate_ifc_file_def Let_def)
  note ok = temp_copy_removed_on_return[THEN conjunct1, rule_format]
  note ko = temp_copy_removed_on_return[THEN conjunct2, THEN conjunct1, rule_format]
  have "fst (app_validate_ifc_file sample_lib (\<lambda>fs p. Inr [element_A, element_B])
          Map.empty ''/tmp/tmpab12.ifc'' ''ISO-10303-21;'' ''A4_RIV_Utsparinger.ifc'') =
        Map.empty(''/tmp/tmpab12.ifc'' := None)"
    by (rule ok[OF B])
  then have 1: "fst (app_validate_ifc_file sample_lib (\<lambda>fs p. Inr [element_A, element_B])
          Map.empty ''/tmp/tmpab12.ifc'' ''ISO-10303-21;'' ''A4_RIV_Utsparinger.ifc'')
     ''/tmp/tmpab12.ifc'' = None"
    by simp
  have "fst (app_validate_ifc_file sample_lib (\<lambda>fs p. Inl LibraryError)
          Map.empty ''/tmp/tmpab12.ifc'' ''not a model'' ''A4_RIV_Utsparinger.ifc'') =
        [''/tmp/tmpab12.ifc'' \<mapsto> ''not a model'']"
    by (rule ko[OF c])
  then have 2: "fst (app_validate_ifc_file sample_lib (\<lambda>fs p. Inl LibraryError)
          Map.empty ''/tmp/tmpab12.ifc'' ''not a model'' ''A4_RIV_Utsparinger.ifc'')
     ''/tmp/tmpab12.ifc'' = Some ''not a model''"
    by simp
  from B c 1 2 show ?thesis by blast
qed

end
